theory Spec2Isabelle
  imports Complex_Main "HOL-Library.Product_Lexorder" "HOL-Library.Sublist"
begin

section \<open>Numbers, strings and errors of the Python source\<close>

text \<open>
  The quote pipeline of the repository (\<^verbatim>\<open>backend/services\<close> and \<^verbatim>\<open>backend/utils\<close>) is
  embedded function by function. Python floats are taken as exact rationals: products,
  quotients and comparisons are the mathematical ones, and \<^verbatim>\<open>round(x, n)\<close> is rounding
  of the exact value to \<open>n\<close> decimals, ties to the even neighbour, as Python rounds a float
  whose value is exactly representable. Binary representation error is outside the
  model. Strings are ASCII byte strings: every name in the catalogs is ASCII.
\<close>

definition round_half_even :: "rat \<Rightarrow> int" where
  "round_half_even x =
     (let f = \<lfloor>x\<rfloor>; d = x - of_int f
      in if d < 1 / 2 then f
         else if 1 / 2 < d then f + 1
         else if even f then f else f + 1)"

text \<open>\<^verbatim>\<open>round(x, n)\<close> for a non-negative number of digits.\<close>

definition py_round :: "rat \<Rightarrow> nat \<Rightarrow> rat" where
  "py_round x n = of_int (round_half_even (x * 10 ^ n)) / 10 ^ n"

text \<open>\<^verbatim>\<open>str.lower\<close>, \<^verbatim>\<open>str.upper\<close> and \<^verbatim>\<open>str.strip\<close> on ASCII text.\<close>

definition ascii_uppercase :: string where
  "ascii_uppercase = ''ABCDEFGHIJKLMNOPQRSTUVWXYZ''"

definition ascii_lowercase :: string where
  "ascii_lowercase = ''abcdefghijklmnopqrstuvwxyz''"

definition lower_char :: "char \<Rightarrow> char" where
  "lower_char c = (case map_of (zip ascii_uppercase ascii_lowercase) c of Some l \<Rightarrow> l | None \<Rightarrow> c)"

definition upper_char :: "char \<Rightarrow> char" where
  "upper_char c = (case map_of (zip ascii_lowercase ascii_uppercase) c of Some u \<Rightarrow> u | None \<Rightarrow> c)"

definition lower :: "string \<Rightarrow> string" where
  "lower s = map lower_char s"

definition upper :: "string \<Rightarrow> string" where
  "upper s = map upper_char s"

text \<open>The ASCII characters for which \<^verbatim>\<open>str.isspace\<close> holds: tab, line feed, vertical
  tab, form feed, carriage return, the four separators \<^verbatim>\<open>0x1c\<close> to \<^verbatim>\<open>0x1f\<close>, space.\<close>

definition ascii_whitespace :: string where
  "ascii_whitespace =
     [CHR 0x09, CHR 0x0A, CHR 0x0B, CHR 0x0C, CHR 0x0D, CHR 0x1C, CHR 0x1D, CHR 0x1E, CHR 0x1F,
      CHR '' '']"

definition is_space :: "char \<Rightarrow> bool" where
  "is_space c = (c \<in> set ascii_whitespace)"

definition strip :: "string \<Rightarrow> string" where
  "strip s = rev (dropWhile is_space (rev (dropWhile is_space s)))"

text \<open>\<^verbatim>\<open>s.startswith(p)\<close> is \<^const>\<open>prefix\<close> and \<^verbatim>\<open>p in s\<close> is \<^const>\<open>sublist\<close>.\<close>

datatype error = ValueError string | KeyError string | TypeError string | ZeroDivisionError

section \<open>Reference catalogs (\<^verbatim>\<open>services/ups_services.py\<close>)\<close>

datatype WeightCategory = ENVELOPE | SMALL | MEDIUM | LARGE

datatype EcoBadge = CARBON_NEUTRAL | ECO_FRIENDLY | STANDARD

record service_data =
  name :: string
  code :: string
  commitment :: string
  eta_hours :: int
  air_percentage :: rat
  truck_percentage :: rat
  base_cost_multiplier :: rat
  priority_level :: int
  eco_badge :: EcoBadge
  tracking_included :: bool
  insurance_included :: bool
  signature_required :: bool
  carbon_factor_kg_per_km :: rat
  description :: string

text \<open>A Python dict keeps insertion order, so each catalog is an association list.\<close>

definition UPS_SERVICES :: "(string \<times> service_data) list" where
  "UPS_SERVICES =
   [(''UPS_NEXT_DAY_AIR_EARLY'',
     \<lparr>name = ''UPS Next Day Air Early'', code = ''14'',
      commitment = ''Next Business Day by 8:00 AM'', eta_hours = 14,
      air_percentage = 95, truck_percentage = 5, base_cost_multiplier = 4.5,
      priority_level = 1, eco_badge = STANDARD, tracking_included = True,
      insurance_included = False, signature_required = True,
      carbon_factor_kg_per_km = 0.85,
      description = ''Fastest delivery option with early morning commitment''\<rparr>),
    (''UPS_NEXT_DAY_AIR'',
     \<lparr>name = ''UPS Next Day Air'', code = ''01'',
      commitment = ''Next Business Day by 10:30 AM'', eta_hours = 16,
      air_percentage = 90, truck_percentage = 10, base_cost_multiplier = 3.8,
      priority_level = 2, eco_badge = STANDARD, tracking_included = True,
      insurance_included = False, signature_required = False,
      carbon_factor_kg_per_km = 0.78,
      description = ''Premium next-day delivery service''\<rparr>),
    (''UPS_NEXT_DAY_AIR_SAVER'',
     \<lparr>name = ''UPS Next Day Air Saver'', code = ''13'',
      commitment = ''Next Business Day by 3:00 PM'', eta_hours = 20,
      air_percentage = 85, truck_percentage = 15, base_cost_multiplier = 3.2,
      priority_level = 3, eco_badge = STANDARD, tracking_included = True,
      insurance_included = False, signature_required = False,
      carbon_factor_kg_per_km = 0.72,
      description = ''Cost-effective next-day delivery option''\<rparr>),
    (''UPS_2ND_DAY_AIR'',
     \<lparr>name = ''UPS 2nd Day Air'', code = ''02'',
      commitment = ''2 Business Days by 10:30 AM'', eta_hours = 40,
      air_percentage = 75, truck_percentage = 25, base_cost_multiplier = 2.1,
      priority_level = 4, eco_badge = ECO_FRIENDLY, tracking_included = True,
      insurance_included = False, signature_required = False,
      carbon_factor_kg_per_km = 0.58,
      description = ''Reliable 2-day delivery with air transport''\<rparr>),
    (''UPS_3_DAY_SELECT'',
     \<lparr>name = ''UPS 3-Day Select'', code = ''12'',
      commitment = ''3 Business Days by End of Day'', eta_hours = 72,
      air_percentage = 40, truck_percentage = 60, base_cost_multiplier = 1.6,
      priority_level = 5, eco_badge = ECO_FRIENDLY, tracking_included = True,
      insurance_included = False, signature_required = False,
      carbon_factor_kg_per_km = 0.42,
      description = ''Economical 3-day delivery with mixed transport''\<rparr>),
    (''UPS_GROUND'',
     \<lparr>name = ''UPS Ground'', code = ''03'',
      commitment = ''1-5 Business Days'', eta_hours = 120,
      air_percentage = 5, truck_percentage = 95, base_cost_multiplier = 1.0,
      priority_level = 6, eco_badge = CARBON_NEUTRAL, tracking_included = True,
      insurance_included = False, signature_required = False,
      carbon_factor_kg_per_km = 0.18,
      description = ''Most environmentally friendly ground delivery option''\<rparr>)]"

record location =
  city :: string
  state :: string
  zip_code :: string

text \<open>
  A route dict. The entries \<^verbatim>\<open>origin\<close> and \<^verbatim>\<open>destination\<close> are themselves dicts; the
  record is polymorphic in what stands for them, so that it serves both for a route with
  its locations in place (\<open>route_data\<close>, used by the computations) and for a route object
  of the store, which holds references to its locations. The key \<^verbatim>\<open>is_fallback\<close> exists in
  synthesized routes only, so the field is optional; the free-text \<^verbatim>\<open>description\<close> of a
  route is the field \<open>route_description\<close>.
\<close>

record 'l route =
  origin :: 'l
  destination :: 'l
  air_distance_km :: rat
  ground_distance_km :: rat
  base_cost_per_kg :: rat
  route_complexity :: string
  estimated_ground_days :: int
  major_hubs :: "string list"
  route_description :: string
  is_fallback :: "bool option"

type_synonym route_data = "location route"

definition mk_route ::
  "string \<Rightarrow> string \<Rightarrow> string \<Rightarrow> string \<Rightarrow> string \<Rightarrow> string \<Rightarrow> rat \<Rightarrow> rat \<Rightarrow> rat \<Rightarrow>
   string \<Rightarrow> int \<Rightarrow> string list \<Rightarrow> string \<Rightarrow> route_data" where
  "mk_route oc os oz dc ds dz air ground cost cx days hubs descr =
     \<lparr>origin = \<lparr>city = oc, state = os, zip_code = oz\<rparr>,
      destination = \<lparr>city = dc, state = ds, zip_code = dz\<rparr>,
      air_distance_km = air, ground_distance_km = ground, base_cost_per_kg = cost,
      route_complexity = cx, estimated_ground_days = days, major_hubs = hubs,
      route_description = descr, is_fallback = None\<rparr>"

definition DEMO_ROUTES :: "(string \<times> route_data) list" where
  "DEMO_ROUTES =
   [(''NYC_LA'', mk_route ''New York'' ''NY'' ''10001'' ''Los Angeles'' ''CA'' ''90210''
       3944 4501 8.50 ''complex'' 5 [''Chicago'', ''Denver'']
       ''Cross-country route from East Coast to West Coast''),
    (''SF_CHICAGO'', mk_route ''San Francisco'' ''CA'' ''94102'' ''Chicago'' ''IL'' ''60601''
       2960 3420 7.25 ''moderate'' 4 [''Denver'', ''Kansas City'']
       ''West Coast to Midwest major business corridor''),
    (''MIAMI_SEATTLE'', mk_route ''Miami'' ''FL'' ''33101'' ''Seattle'' ''WA'' ''98101''
       4308 5145 9.75 ''complex'' 5 [''Atlanta'', ''Chicago'', ''Denver'']
       ''Southeast to Pacific Northwest diagonal route''),
    (''BOSTON_DALLAS'', mk_route ''Boston'' ''MA'' ''02101'' ''Dallas'' ''TX'' ''75201''
       2563 3089 6.80 ''moderate'' 3 [''New York'', ''Atlanta'']
       ''Northeast to South-Central business route''),
    (''DENVER_ATLANTA'', mk_route ''Denver'' ''CO'' ''80202'' ''Atlanta'' ''GA'' ''30303''
       1770 2092 5.90 ''simple'' 3 [''Kansas City'']
       ''Mountain West to Southeast hub-to-hub route''),
    (''PHOENIX_DETROIT'', mk_route ''Phoenix'' ''AZ'' ''85001'' ''Detroit'' ''MI'' ''48201''
       2570 2890 7.10 ''moderate'' 4 [''Denver'', ''Chicago'']
       ''Southwest to Great Lakes industrial corridor''),
    (''PORTLAND_HOUSTON'', mk_route ''Portland'' ''OR'' ''97201'' ''Houston'' ''TX'' ''77001''
       2890 3420 7.80 ''moderate'' 4 [''San Francisco'', ''Los Angeles'', ''Phoenix'']
       ''Pacific Northwest to Gulf Coast energy corridor''),
    (''ORLANDO_MINNEAPOLIS'',
     mk_route ''Orlando'' ''FL'' ''32801'' ''Minneapolis'' ''MN'' ''55401''
       1890 2245 6.20 ''simple'' 3 [''Atlanta'', ''Chicago'']
       ''Southeast tourism hub to Upper Midwest''),
    (''SALT_LAKE_CITY_PHILADELPHIA'',
     mk_route ''Salt Lake City'' ''UT'' ''84101'' ''Philadelphia'' ''PA'' ''19101''
       2890 3380 7.60 ''moderate'' 4 [''Denver'', ''Chicago'']
       ''Mountain West to Northeast corridor''),
    (''NASHVILLE_SAN_DIEGO'',
     mk_route ''Nashville'' ''TN'' ''37201'' ''San Diego'' ''CA'' ''92101''
       2780 3290 7.40 ''moderate'' 4 [''Dallas'', ''Phoenix'']
       ''Music City to Southern California coast''),
    (''CHARLOTTE_KANSAS_CITY'',
     mk_route ''Charlotte'' ''NC'' ''28201'' ''Kansas City'' ''MO'' ''64101''
       1120 1340 4.80 ''simple'' 2 [''Atlanta'']
       ''Southeast financial hub to Midwest logistics center''),
    (''SACRAMENTO_MEMPHIS'',
     mk_route ''Sacramento'' ''CA'' ''95814'' ''Memphis'' ''TN'' ''38101''
       2650 3120 7.20 ''moderate'' 4 [''Denver'', ''Dallas'']
       ''California capital to Mid-South distribution hub''),
    (''BUFFALO_ALBUQUERQUE'',
     mk_route ''Buffalo'' ''NY'' ''14201'' ''Albuquerque'' ''NM'' ''87101''
       2420 2890 6.90 ''moderate'' 4 [''Chicago'', ''Denver'']
       ''Great Lakes region to Southwest high desert''),
    (''RICHMOND_MILWAUKEE'',
     mk_route ''Richmond'' ''VA'' ''23219'' ''Milwaukee'' ''WI'' ''53201''
       1180 1420 5.10 ''simple'' 2 [''Washington DC'', ''Chicago'']
       ''Mid-Atlantic to Great Lakes manufacturing region''),
    (''TUCSON_COLUMBUS'',
     mk_route ''Tucson'' ''AZ'' ''85701'' ''Columbus'' ''OH'' ''43215''
       2340 2780 6.70 ''moderate'' 3 [''Phoenix'', ''Denver'', ''Chicago'']
       ''Desert Southwest to Ohio Valley business center'')]"

record dimensions =
  length_cm :: int
  width_cm :: int
  height_cm :: int

record weight_category_data =
  max_weight_kg :: rat
  typical_weight_kg :: rat
  dimensions_cm :: dimensions
  cost_adjustment :: rat
  category_description :: string

definition WEIGHT_CATEGORIES :: "(WeightCategory \<times> weight_category_data) list" where
  "WEIGHT_CATEGORIES =
   [(ENVELOPE, \<lparr>max_weight_kg = 0.5, typical_weight_kg = 0.1,
       dimensions_cm = \<lparr>length_cm = 30, width_cm = 23, height_cm = 2\<rparr>,
       cost_adjustment = 0.8,
       category_description = ''Documents, letters, small flat items''\<rparr>),
    (SMALL, \<lparr>max_weight_kg = 2.0, typical_weight_kg = 0.8,
       dimensions_cm = \<lparr>length_cm = 25, width_cm = 20, height_cm = 15\<rparr>,
       cost_adjustment = 0.9,
       category_description = ''Small electronics, books, accessories''\<rparr>),
    (MEDIUM, \<lparr>max_weight_kg = 10.0, typical_weight_kg = 4.5,
       dimensions_cm = \<lparr>length_cm = 40, width_cm = 30, height_cm = 25\<rparr>,
       cost_adjustment = 1.0,
       category_description = ''Clothing, shoes, medium electronics''\<rparr>),
    (LARGE, \<lparr>max_weight_kg = 70.0, typical_weight_kg = 25.0,
       dimensions_cm = \<lparr>length_cm = 80, width_cm = 60, height_cm = 50\<rparr>,
       cost_adjustment = 1.2,
       category_description = ''Large appliances, furniture, bulk items''\<rparr>)]"



text \<open>\<^verbatim>\<open>UPSDataLookup.get_weight_category_for_weight\<close>: the loop over the bands in dict
  order, with \<^verbatim>\<open>LARGE\<close> as the default after the loop.\<close>

fun weight_category_in :: "(WeightCategory \<times> weight_category_data) list \<Rightarrow> rat \<Rightarrow> WeightCategory" where
  "weight_category_in [] weight_kg = LARGE"
| "weight_category_in ((category, category_data) # rest) weight_kg =
     (if weight_kg \<le> max_weight_kg category_data then category
      else weight_category_in rest weight_kg)"

definition get_weight_category_for_weight :: "rat \<Rightarrow> WeightCategory" where
  "get_weight_category_for_weight weight_kg = weight_category_in WEIGHT_CATEGORIES weight_kg"

section \<open>Cost engine (\<^verbatim>\<open>ShippingCostCalculator\<close>)\<close>

definition SHORT_DISTANCE_MULTIPLIER :: rat where "SHORT_DISTANCE_MULTIPLIER = 0.8"
definition MEDIUM_DISTANCE_MULTIPLIER :: rat where "MEDIUM_DISTANCE_MULTIPLIER = 1.0"
definition LONG_DISTANCE_MULTIPLIER :: rat where "LONG_DISTANCE_MULTIPLIER = 1.3"
definition SHORT_DISTANCE_THRESHOLD :: rat where "SHORT_DISTANCE_THRESHOLD = 1000"
definition LONG_DISTANCE_THRESHOLD :: rat where "LONG_DISTANCE_THRESHOLD = 3000"
definition FUEL_SURCHARGE_PERCENTAGE :: rat where "FUEL_SURCHARGE_PERCENTAGE = 12.5"

definition PREMIUM_MULTIPLIERS :: "(string \<times> rat) list" where
  "PREMIUM_MULTIPLIERS =
   [(''UPS_NEXT_DAY_AIR_EARLY'', 1.15), (''UPS_NEXT_DAY_AIR'', 1.05),
    (''UPS_NEXT_DAY_AIR_SAVER'', 1.0), (''UPS_2ND_DAY_AIR'', 0.95),
    (''UPS_3_DAY_SELECT'', 0.90), (''UPS_GROUND'', 0.85)]"

definition MINIMUM_COSTS :: "(string \<times> rat) list" where
  "MINIMUM_COSTS =
   [(''UPS_NEXT_DAY_AIR_EARLY'', 95.0), (''UPS_NEXT_DAY_AIR'', 75.0),
    (''UPS_NEXT_DAY_AIR_SAVER'', 65.0), (''UPS_2ND_DAY_AIR'', 35.0),
    (''UPS_3_DAY_SELECT'', 25.0), (''UPS_GROUND'', 15.0)]"

text \<open>\<^verbatim>\<open>d.get(k, default)\<close> on an association list.\<close>

definition dict_get :: "('k \<times> 'v) list \<Rightarrow> 'k \<Rightarrow> 'v \<Rightarrow> 'v" where
  "dict_get d k dflt = (case map_of d k of Some v \<Rightarrow> v | None \<Rightarrow> dflt)"

definition get_distance_multiplier :: "rat \<Rightarrow> rat" where
  "get_distance_multiplier distance_km =
     (if distance_km < SHORT_DISTANCE_THRESHOLD then SHORT_DISTANCE_MULTIPLIER
      else if distance_km > LONG_DISTANCE_THRESHOLD then LONG_DISTANCE_MULTIPLIER
      else MEDIUM_DISTANCE_MULTIPLIER)"

text \<open>\<^verbatim>\<open>calculate_shipping_cost\<close>, statement by statement; the subscript
  \<^verbatim>\<open>WEIGHT_CATEGORIES[weight_category]\<close> raises \<^verbatim>\<open>KeyError\<close> on a missing band.\<close>

definition calculate_shipping_cost ::
  "route_data \<Rightarrow> rat \<Rightarrow> service_data \<Rightarrow> string \<Rightarrow> error + rat" where
  "calculate_shipping_cost rd weight_kg sd service_key =
     (let service_multiplier = base_cost_multiplier sd;
          distance_km = max (air_distance_km rd) (ground_distance_km rd);
          base_cost0 = weight_kg * base_cost_per_kg rd * service_multiplier;
          distance_multiplier = get_distance_multiplier distance_km;
          base_cost1 = base_cost0 * distance_multiplier;
          weight_category = get_weight_category_for_weight weight_kg
      in case map_of WEIGHT_CATEGORIES weight_category of
           None \<Rightarrow> Inl (KeyError ''weight_category'')
         | Some category_data \<Rightarrow>
             (let base_cost2 = base_cost1 * cost_adjustment category_data;
                  fuel_surcharge = base_cost2 * (FUEL_SURCHARGE_PERCENTAGE / 100);
                  base_cost3 = base_cost2 + fuel_surcharge;
                  premium_multiplier = dict_get PREMIUM_MULTIPLIERS service_key 1.0;
                  final_cost0 = base_cost3 * premium_multiplier;
                  minimum_cost = dict_get MINIMUM_COSTS service_key 15.0;
                  final_cost = max final_cost0 minimum_cost
              in Inr (py_round final_cost 2)))"

section \<open>Carbon engine (\<^verbatim>\<open>utils/carbon_calculator.py\<close>)\<close>

definition TRUCK_FACTOR :: rat where "TRUCK_FACTOR = 0.150"
definition AIR_FACTOR :: rat where "AIR_FACTOR = 0.570"
definition GROUND_EFFICIENCY_FACTOR :: rat where "GROUND_EFFICIENCY_FACTOR = 0.85"
definition EXPRESS_EFFICIENCY_FACTOR :: rat where "EXPRESS_EFFICIENCY_FACTOR = 1.10"
definition TREE_OFFSET_KG_PER_YEAR :: rat where "TREE_OFFSET_KG_PER_YEAR = 21.0"
definition CAR_EMISSION_KG_PER_MILE :: rat where "CAR_EMISSION_KG_PER_MILE = 0.411"

record CarbonBreakdown =
  total_co2_kg :: rat
  air_transport_co2_kg :: rat
  truck_transport_co2_kg :: rat
  air_tkm :: rat
  truck_tkm :: rat
  trees_offset_equivalent :: rat
  car_miles_equivalent :: rat
  service_name :: string
  route_key :: string
  weight_kg :: rat
  co2_per_kg :: rat
  co2_per_km :: rat

definition get_service_efficiency_factor :: "service_data \<Rightarrow> rat" where
  "get_service_efficiency_factor sd =
     (let service_name = lower (name sd)
      in if sublist ''ground'' service_name then GROUND_EFFICIENCY_FACTOR
         else if list_ex (\<lambda>express_term. sublist express_term service_name)
                   [''next day'', ''early'', ''express'']
              then EXPRESS_EFFICIENCY_FACTOR
         else 1.0)"

text \<open>\<^verbatim>\<open>_validate_carbon_inputs\<close>. The checks on the service dict (a dict holding the
  three required fields) hold for every value of the record type.\<close>

definition validate_carbon_inputs :: "string \<Rightarrow> rat \<Rightarrow> service_data \<Rightarrow> error + unit" where
  "validate_carbon_inputs rk w sd =
     (if rk = [] then Inl (ValueError ''Route key must be a non-empty string'')
      else if w \<le> 0 \<or> w > 70 then Inl (ValueError ''Weight must be between 0 and 70 kg'')
      else Inr ())"

text \<open>The distances the carbon calculation reads: of the cataloged route, or, for a key
  that starts with \<^verbatim>\<open>FALLBACK_\<close>, the unrounded catalog averages.\<close>

definition carbon_route_distances :: "string \<Rightarrow> error + (rat \<times> rat)" where
  "carbon_route_distances rk =
     (case map_of DEMO_ROUTES rk of
        Some rd \<Rightarrow> Inr (air_distance_km rd, ground_distance_km rd)
      | None \<Rightarrow>
          if prefix ''FALLBACK_'' rk then
            (let all_routes = map snd DEMO_ROUTES
             in if length all_routes = 0 then Inl ZeroDivisionError
                else Inr (sum_list (map air_distance_km all_routes) / of_nat (length all_routes),
                          sum_list (map ground_distance_km all_routes) / of_nat (length all_routes)))
          else Inl (ValueError (''Route '' @ [CHR 0x27] @ rk @ [CHR 0x27]
                           @ '' not found in available routes'')))"

definition calculate_carbon_footprint ::
  "string \<Rightarrow> rat \<Rightarrow> service_data \<Rightarrow> error + CarbonBreakdown" where
  "calculate_carbon_footprint rk w sd =
     (case validate_carbon_inputs rk w sd of
        Inl e \<Rightarrow> Inl e
      | Inr _ \<Rightarrow>
         (case carbon_route_distances rk of
            Inl e \<Rightarrow> Inl e
          | Inr (air_km, ground_km) \<Rightarrow>
             (let weight_tonnes = w / 1000;
                  air_tkm_v = (air_km * air_percentage sd / 100) * weight_tonnes;
                  truck_tkm_v = (ground_km * truck_percentage sd / 100) * weight_tonnes;
                  efficiency_factor = get_service_efficiency_factor sd;
                  air_co2_kg = air_tkm_v * AIR_FACTOR;
                  truck_co2_kg = truck_tkm_v * TRUCK_FACTOR * efficiency_factor;
                  total_co2 = air_co2_kg + truck_co2_kg;
                  trees_equivalent = total_co2 / TREE_OFFSET_KG_PER_YEAR;
                  car_miles = total_co2 / CAR_EMISSION_KG_PER_MILE;
                  total_distance_km = max air_km ground_km;
                  per_kg = (if w > 0 then total_co2 / w else 0);
                  per_km = (if total_distance_km > 0 then total_co2 / total_distance_km else 0)
              in Inr \<lparr>total_co2_kg = py_round total_co2 3,
                      air_transport_co2_kg = py_round air_co2_kg 3,
                      truck_transport_co2_kg = py_round truck_co2_kg 3,
                      air_tkm = py_round air_tkm_v 3,
                      truck_tkm = py_round truck_tkm_v 3,
                      trees_offset_equivalent = py_round trees_equivalent 2,
                      car_miles_equivalent = py_round car_miles 1,
                      service_name = name sd,
                      route_key = rk,
                      weight_kg = w,
                      co2_per_kg = py_round per_kg 4,
                      co2_per_km = py_round per_km 4\<rparr>)))"

section \<open>Lane resolver (\<^verbatim>\<open>RouteManager\<close>)\<close>

text \<open>\<^verbatim>\<open>_swap_route_direction\<close>: a copy of the dict with the two keys rebound.\<close>

definition swap_route_direction :: "route_data \<Rightarrow> route_data" where
  "swap_route_direction rd = rd\<lparr>origin := destination rd, destination := origin rd\<rparr>"


text \<open>The body of \<^verbatim>\<open>get_fallback_route_data\<close>, as a function of
  \<^verbatim>\<open>list(DEMO_ROUTES.values())\<close>: the catalog averages, the distances rounded to integers
  and the cost to cents.\<close>

definition fallback_route_data_of :: "route_data list \<Rightarrow> string \<Rightarrow> string \<Rightarrow> error + route_data" where
  "fallback_route_data_of all_routes origin_city destination_city =
     (if length all_routes = 0 then Inl ZeroDivisionError
      else
       (let avg_air_distance = sum_list (map air_distance_km all_routes) / of_nat (length all_routes);
            avg_ground_distance = sum_list (map ground_distance_km all_routes) / of_nat (length all_routes);
            avg_base_cost = sum_list (map base_cost_per_kg all_routes) / of_nat (length all_routes)
        in Inr \<lparr>origin = \<lparr>city = origin_city, state = ''XX'', zip_code = ''00000''\<rparr>,
                destination = \<lparr>city = destination_city, state = ''XX'', zip_code = ''00000''\<rparr>,
                air_distance_km = of_int (round_half_even avg_air_distance),
                ground_distance_km = of_int (round_half_even avg_ground_distance),
                base_cost_per_kg = py_round avg_base_cost 2,
                route_complexity = ''moderate'',
                estimated_ground_days = 4,
                major_hubs = [''Hub City''],
                route_description =
                  ''Estimated route from '' @ origin_city @ '' to '' @ destination_city,
                is_fallback = Some True\<rparr>))"


section \<open>Carbon comparison (\<^verbatim>\<open>CarbonComparison\<close>)\<close>

datatype EcoBadgeLevel =
  LEVEL_MOST_ECO_FRIENDLY | LEVEL_ECO_FRIENDLY | LEVEL_STANDARD | LEVEL_HIGH_EMISSION

record carbon_result =
  cr_service_key :: string
  cr_service_name :: string
  cr_carbon_breakdown :: CarbonBreakdown
  cr_priority_level :: int
  cr_carbon_savings_percentage :: rat
  cr_eco_badge :: EcoBadgeLevel

text \<open>\<^verbatim>\<open>min(xs)\<close> and \<^verbatim>\<open>max(xs)\<close>; both are called on non-empty lists only.\<close>

definition py_min :: "rat list \<Rightarrow> rat" where
  "py_min xs = fold min (tl xs) (hd xs)"

definition py_max :: "rat list \<Rightarrow> rat" where
  "py_max xs = fold max (tl xs) (hd xs)"

definition assign_eco_badge :: "rat \<Rightarrow> rat \<Rightarrow> rat \<Rightarrow> rat \<Rightarrow> EcoBadgeLevel" where
  "assign_eco_badge carbon_kg min_carbon max_carbon avg_carbon =
     (if carbon_kg = min_carbon then LEVEL_MOST_ECO_FRIENDLY
      else if carbon_kg \<le> avg_carbon then LEVEL_ECO_FRIENDLY
      else if carbon_kg \<ge> max_carbon * 0.9 then LEVEL_HIGH_EMISSION
      else LEVEL_STANDARD)"


record carbon_statistics =
  lowest_carbon_service :: string
  highest_carbon_service :: string
  min_carbon_kg :: rat
  max_carbon_kg :: rat
  avg_carbon_kg :: rat
  carbon_range_kg :: rat

record carbon_comparison_data =
  carbon_results :: "carbon_result list"
  statistics :: carbon_statistics
  eco_friendly_services :: "string list"
  cc_route_key :: string
  cc_weight_kg :: rat


section \<open>Quote pipeline (\<^verbatim>\<open>QuoteGenerator\<close>)\<close>

text \<open>A quote dict. The two badge keys are added by \<^verbatim>\<open>_add_eco_badges_to_quotes\<close> and
  are absent when the carbon comparison failed.\<close>

record quote =
  q_service_key :: string
  q_service_name :: string
  q_service_code :: string
  q_commitment_time :: string
  q_eta_hours :: int
  q_cost_usd :: rat
  q_carbon_breakdown :: CarbonBreakdown
  q_priority_level :: int
  q_tracking_included :: bool
  q_insurance_included :: bool
  q_signature_required :: bool
  q_eco_badge :: "EcoBadgeLevel option"
  q_carbon_savings_percentage :: "rat option"

text \<open>\<^verbatim>\<open>_validate_quote_inputs\<close>. The arguments are a string, a string and a number, so
  the \<^verbatim>\<open>isinstance\<close> tests hold; \<^verbatim>\<open>not s\<close> on a string is \<open>s = []\<close>.\<close>

definition validate_quote_inputs :: "string \<Rightarrow> string \<Rightarrow> rat \<Rightarrow> error + unit" where
  "validate_quote_inputs origin_city destination_city w =
     (if origin_city = [] \<or> length (strip origin_city) = 0
      then Inl (ValueError ''Origin city must be a non-empty string'')
      else if destination_city = [] \<or> length (strip destination_city) = 0
      then Inl (ValueError ''Destination city must be a non-empty string'')
      else if lower (strip origin_city) = lower (strip destination_city)
      then Inl (ValueError ''Origin and destination cities cannot be the same'')
      else if w \<le> 0
      then Inl (ValueError ''Weight must be a positive number'')
      else if w > 70
      then Inl (ValueError ''Weight cannot exceed 70kg for standard UPS services'')
      else Inr ())"

text \<open>The body of the \<^verbatim>\<open>try\<close> block for one service: cost, carbon, quote dict.\<close>

definition tier_quote ::
  "route_data \<Rightarrow> string \<Rightarrow> rat \<Rightarrow> string \<Rightarrow> service_data \<Rightarrow> error + quote" where
  "tier_quote rd rk w service_key sd =
     (case calculate_shipping_cost rd w sd service_key of
        Inl e \<Rightarrow> Inl e
      | Inr cost_usd \<Rightarrow>
         (case calculate_carbon_footprint rk w sd of
            Inl e \<Rightarrow> Inl e
          | Inr carbon_breakdown \<Rightarrow>
              Inr \<lparr>q_service_key = service_key,
                   q_service_name = name sd,
                   q_service_code = code sd,
                   q_commitment_time = commitment sd,
                   q_eta_hours = eta_hours sd,
                   q_cost_usd = cost_usd,
                   q_carbon_breakdown = carbon_breakdown,
                   q_priority_level = priority_level sd,
                   q_tracking_included = tracking_included sd,
                   q_insurance_included = insurance_included sd,
                   q_signature_required = signature_required sd,
                   q_eco_badge = None,
                   q_carbon_savings_percentage = None\<rparr>))"


text \<open>The sort key of the pipeline, compared as Python compares tuples.\<close>

definition quote_sort_key :: "quote \<Rightarrow> int \<times> rat \<times> rat" where
  "quote_sort_key q = (q_eta_hours q, total_co2_kg (q_carbon_breakdown q), q_cost_usd q)"


record route_info =
  ri_route_key :: string
  ri_origin_city :: string
  ri_destination_city :: string
  ri_total_distance_km :: rat
  ri_air_distance_km :: rat
  ri_ground_distance_km :: rat
  ri_route_complexity :: string
  ri_is_fallback :: bool

record price_range =
  range_min :: rat
  range_max :: rat

record summary =
  total_quotes :: nat
  price_range_usd :: price_range
  carbon_range_kg_s :: price_range
  fastest_service :: string
  cheapest_service :: string
  most_eco_friendly :: string

text \<open>The result dict, without \<^verbatim>\<open>request_metadata\<close>, which holds the request's
  arguments and two wall-clock timestamps.\<close>

record quotes_result =
  quotes :: "quote list"
  carbon_comparison_r :: "error + carbon_comparison_data"
  route_info_r :: route_info
  summary_r :: summary



section \<open>Eco scorer (\<^verbatim>\<open>utils/eco_efficiency_scorer.py\<close>)\<close>

record ScoringWeights =
  cost_effectiveness :: rat
  environmental_impact :: rat

definition default_weights :: ScoringWeights where
  "default_weights = \<lparr>cost_effectiveness = 0.70, environmental_impact = 0.30\<rparr>"

definition weights_validate :: "ScoringWeights \<Rightarrow> bool" where
  "weights_validate ws = (\<bar>cost_effectiveness ws + environmental_impact ws - 1.0\<bar> < 0.001)"

text \<open>An \<^verbatim>\<open>EcoEfficiencyScore\<close> without its \<^verbatim>\<open>explanation\<close>, a sentence formatted from
  the other fields.\<close>

record EcoEfficiencyScore =
  points :: rat
  cost_effectiveness_score :: rat
  environmental_score :: rat
  cost_per_kg :: rat
  carbon_per_kg :: rat
  tier :: string

definition TIER_RANGES :: "(string \<times> int \<times> int) list" where
  "TIER_RANGES =
   [(''excellent'', (21, 25)), (''very_good'', (17, 20)), (''good'', (13, 16)),
    (''fair'', (9, 12)), (''poor'', (5, 8)), (''very_poor'', (0, 4))]"

definition normalize_cost_scores :: "rat list \<Rightarrow> rat list" where
  "normalize_cost_scores cost_per_kg_values =
     (if cost_per_kg_values = [] then []
      else
       (let min_cost = py_min cost_per_kg_values;
            max_cost = py_max cost_per_kg_values
        in if max_cost = min_cost then replicate (length cost_per_kg_values) 1.0
           else map (\<lambda>cost. (max_cost - cost) / (max_cost - min_cost)) cost_per_kg_values))"

definition normalize_environmental_scores :: "rat list \<Rightarrow> rat list" where
  "normalize_environmental_scores carbon_per_kg_values =
     (if carbon_per_kg_values = [] then []
      else
       (let min_carbon = py_min carbon_per_kg_values;
            max_carbon = py_max carbon_per_kg_values
        in if max_carbon = min_carbon then replicate (length carbon_per_kg_values) 1.0
           else map (\<lambda>carbon. (max_carbon - carbon) / (max_carbon - min_carbon))
                  carbon_per_kg_values))"

text \<open>The \<^verbatim>\<open>if\<close>/\<^verbatim>\<open>elif\<close> chain of \<^verbatim>\<open>_apply_business_logic\<close> that binds
  \<^verbatim>\<open>adjustment\<close>, in the source's order of tests.\<close>

definition business_adjustment :: "string \<Rightarrow> rat" where
  "business_adjustment sname =
     (if sublist ''Next Day Air Early'' sname then - 0.15
      else if sublist ''Next Day Air'' sname \<and> \<not> sublist ''Early'' sname then - 0.08
      else if sublist ''Next Day Air Saver'' sname then 0.25
      else if sublist ''2nd Day Air'' sname then 0.28
      else if sublist ''3-Day Select'' sname then 0.30
      else if sublist ''Ground'' sname then 0.32
      else 0.0)"

text \<open>The weighted score before the adjustment.\<close>

definition base_score :: "ScoringWeights \<Rightarrow> rat \<Rightarrow> rat \<Rightarrow> rat" where
  "base_score ws cost_score env_score =
     cost_score * cost_effectiveness ws + env_score * environmental_impact ws"

definition apply_business_logic ::
  "ScoringWeights \<Rightarrow> quote \<Rightarrow> rat \<Rightarrow> rat \<Rightarrow> nat \<Rightarrow> nat \<Rightarrow> rat" where
  "apply_business_logic ws q cost_score env_score quote_index n_quotes =
     (let base = base_score ws cost_score env_score;
          adjustment = business_adjustment (q_service_name q);
          adjusted_score = base * (1 + adjustment);
          final_score = max 0 (min 25 (adjusted_score * 25))
      in final_score)"

fun determine_tier_in :: "(string \<times> int \<times> int) list \<Rightarrow> rat \<Rightarrow> string" where
  "determine_tier_in [] score = ''unranked''"
| "determine_tier_in ((tier_name, (min_points, max_points)) # rest) score =
     (if of_int min_points \<le> score \<and> score \<le> of_int max_points then tier_name
      else determine_tier_in rest score)"

definition determine_tier :: "rat \<Rightarrow> string" where
  "determine_tier score = determine_tier_in TIER_RANGES score"

definition calculate_scores ::
  "ScoringWeights \<Rightarrow> quote list \<Rightarrow> rat \<Rightarrow> error + EcoEfficiencyScore list" where
  "calculate_scores ws qs w =
     (if qs = [] then Inl (ValueError ''No quotes provided for scoring'')
      else if w \<le> 0 then Inl (ValueError ''Package weight must be positive'')
      else
       (let cost_per_kg_values = map (\<lambda>q. q_cost_usd q / w) qs;
            carbon_per_kg_values = map (\<lambda>q. total_co2_kg (q_carbon_breakdown q) / w) qs;
            cost_scores = normalize_cost_scores cost_per_kg_values;
            environmental_scores = normalize_environmental_scores carbon_per_kg_values
        in Inr (map (\<lambda>i.
                  let q = qs ! i;
                      cost_effectiveness_score_v = cost_scores ! i;
                      environmental_score_v = environmental_scores ! i;
                      weighted_score =
                        apply_business_logic ws q cost_effectiveness_score_v
                          environmental_score_v i (length qs)
                  in \<lparr>points = py_round weighted_score 1,
                      cost_effectiveness_score = py_round cost_effectiveness_score_v 2,
                      environmental_score = py_round environmental_score_v 2,
                      cost_per_kg = cost_per_kg_values ! i,
                      carbon_per_kg = carbon_per_kg_values ! i,
                      tier = determine_tier weighted_score\<rparr>)
                [0..<length qs])))"

section \<open>Delivery dates (\<^verbatim>\<open>utils/delivery_calculator.py\<close>)\<close>

text \<open>
  A date is its proleptic Gregorian ordinal, Python's \<^verbatim>\<open>date.toordinal()\<close>: day 1 is
  Monday, 1 January of year 1, and \<^verbatim>\<open>weekday()\<close> is 0 on Mondays and 6 on Sundays.
  Adding \<^verbatim>\<open>timedelta(days=n)\<close> adds \<open>n\<close> to the ordinal and keeps the time of day, which
  no function below reads. Ordinals are unbounded integers: the ends of Python's calendar
  (years 1 and 9999) are outside the model.
\<close>

definition weekday :: "int \<Rightarrow> int" where
  "weekday d = (d + 6) mod 7"

definition is_business_day :: "int \<Rightarrow> bool" where
  "is_business_day d = (weekday d < 5)"

text \<open>The number of weekend days that directly follow a date; it bounds how long the
  loop of \<^verbatim>\<open>add_business_days\<close> can run without counting a day.\<close>

definition weekend_run :: "int \<Rightarrow> nat" where
  "weekend_run d = (if weekday d = 4 then 2 else if weekday d = 5 then 1 else 0)"

function add_business_days_loop :: "int \<Rightarrow> int \<Rightarrow> int \<Rightarrow> int" where
  "add_business_days_loop current_date days_added business_days =
     (if days_added < business_days
      then (if is_business_day (current_date + 1)
            then add_business_days_loop (current_date + 1) (days_added + 1) business_days
            else add_business_days_loop (current_date + 1) days_added business_days)
      else current_date)"
  by pat_completeness auto
termination
proof (relation "measure (\<lambda>(c, a, b). nat (3 * (b - a)) + weekend_run c)", goal_cases)
  case 1
  show ?case by simp
next
  case (2 c a b)
  have "weekend_run (c + 1) \<le> 2" by (simp add: weekend_run_def)
  with 2 show ?case by simp
next
  case (3 c a b)
  then have "weekday (c + 1) = 5 \<or> weekday (c + 1) = 6"
    unfolding is_business_day_def weekday_def by (simp; presburger)
  then have "weekend_run (c + 1) < weekend_run c"
    unfolding weekend_run_def weekday_def by (simp; presburger)
  then show ?case by simp
qed

declare add_business_days_loop.simps [simp del]

definition add_business_days :: "int \<Rightarrow> int \<Rightarrow> int" where
  "add_business_days start_date business_days = add_business_days_loop start_date 0 business_days"

definition get_next_business_day :: "int \<Rightarrow> int" where
  "get_next_business_day d = add_business_days d 1"




section \<open>The object store\<close>

text \<open>
  The catalogs are module-level dicts, and the pipeline passes their entries around by
  reference: \<^verbatim>\<open>route_lookup\<close> returns the very dict object of \<^verbatim>\<open>DEMO_ROUTES\<close> on a direct
  match, and a shallow copy of it, which shares the two location dicts, on a reversed
  match. To state what a call leaves untouched, the objects live in an explicit store: a
  list of cells, an address being an index into it. A cell is a dict of one of the shapes
  the pipeline handles. Entries that are dicts themselves and get rebound or shared
  (the locations of a route, the entries of a catalog) are references; the nested values
  that no statement assigns to (the hub list of a route, the dimensions of a weight band,
  the carbon breakdown of a quote) are kept in place. The local lists \<^verbatim>\<open>quotes\<close> and
  \<^verbatim>\<open>carbon_results\<close> are lists of references.

  The cost and carbon functions above read \<^verbatim>\<open>WEIGHT_CATEGORIES\<close> and \<^verbatim>\<open>DEMO_ROUTES\<close> as
  constants. That is what the store holds when the module is loaded, and, by the theorem of
  claim C9, what it holds after every call.
\<close>

type_synonym addr = nat

datatype cell =
    CLocation location
  | CRoute "addr route"
  | CService service_data
  | CWeightCategory weight_category_data
  | CDict "(string \<times> addr) list"
  | CWeightDict "(WeightCategory \<times> addr) list"
  | CQuote quote
  | CCarbonResult carbon_result

type_synonym heap = "cell list"

text \<open>The module globals: where the three catalogs are.\<close>

record globals =
  g_UPS_SERVICES :: addr
  g_DEMO_ROUTES :: addr
  g_WEIGHT_CATEGORIES :: addr

definition alloc :: "heap \<Rightarrow> cell \<Rightarrow> addr \<times> heap" where
  "alloc h c = (length h, h @ [c])"

definition store :: "heap \<Rightarrow> addr \<Rightarrow> cell \<Rightarrow> heap" where
  "store h a c = h[a := c]"

definition load :: "heap \<Rightarrow> addr \<Rightarrow> error + cell" where
  "load h a = (if a < length h then Inr (h ! a) else Inl (KeyError ''no object at this address''))"

definition load_location :: "heap \<Rightarrow> addr \<Rightarrow> error + location" where
  "load_location h a =
     (case load h a of Inl e \<Rightarrow> Inl e | Inr (CLocation l) \<Rightarrow> Inr l
      | Inr _ \<Rightarrow> Inl (TypeError ''not a location''))"

definition load_route :: "heap \<Rightarrow> addr \<Rightarrow> error + addr route" where
  "load_route h a =
     (case load h a of Inl e \<Rightarrow> Inl e | Inr (CRoute r) \<Rightarrow> Inr r
      | Inr _ \<Rightarrow> Inl (TypeError ''not a route''))"

definition load_service :: "heap \<Rightarrow> addr \<Rightarrow> error + service_data" where
  "load_service h a =
     (case load h a of Inl e \<Rightarrow> Inl e | Inr (CService s) \<Rightarrow> Inr s
      | Inr _ \<Rightarrow> Inl (TypeError ''not a service''))"

definition load_weight_category :: "heap \<Rightarrow> addr \<Rightarrow> error + weight_category_data" where
  "load_weight_category h a =
     (case load h a of Inl e \<Rightarrow> Inl e | Inr (CWeightCategory c) \<Rightarrow> Inr c
      | Inr _ \<Rightarrow> Inl (TypeError ''not a weight category''))"

definition load_dict :: "heap \<Rightarrow> addr \<Rightarrow> error + (string \<times> addr) list" where
  "load_dict h a =
     (case load h a of Inl e \<Rightarrow> Inl e | Inr (CDict d) \<Rightarrow> Inr d
      | Inr _ \<Rightarrow> Inl (TypeError ''not a catalog''))"

definition load_weight_dict :: "heap \<Rightarrow> addr \<Rightarrow> error + (WeightCategory \<times> addr) list" where
  "load_weight_dict h a =
     (case load h a of Inl e \<Rightarrow> Inl e | Inr (CWeightDict d) \<Rightarrow> Inr d
      | Inr _ \<Rightarrow> Inl (TypeError ''not a weight catalog''))"

definition load_quote :: "heap \<Rightarrow> addr \<Rightarrow> error + quote" where
  "load_quote h a =
     (case load h a of Inl e \<Rightarrow> Inl e | Inr (CQuote q) \<Rightarrow> Inr q
      | Inr _ \<Rightarrow> Inl (TypeError ''not a quote''))"

definition load_carbon_result :: "heap \<Rightarrow> addr \<Rightarrow> error + carbon_result" where
  "load_carbon_result h a =
     (case load h a of Inl e \<Rightarrow> Inl e | Inr (CCarbonResult r) \<Rightarrow> Inr r
      | Inr _ \<Rightarrow> Inl (TypeError ''not a carbon result''))"

text \<open>Loading the objects of a list of references, in order.\<close>

fun load_each :: "(heap \<Rightarrow> addr \<Rightarrow> error + 'a) \<Rightarrow> heap \<Rightarrow> addr list \<Rightarrow> error + 'a list" where
  "load_each ld h [] = Inr []"
| "load_each ld h (a # as) =
     (case ld h a of
        Inl e \<Rightarrow> Inl e
      | Inr x \<Rightarrow> (case load_each ld h as of Inl e \<Rightarrow> Inl e | Inr xs \<Rightarrow> Inr (x # xs)))"

text \<open>A route with other values for its two locations, every other entry kept.\<close>

definition with_locations :: "'a route \<Rightarrow> 'b \<Rightarrow> 'b \<Rightarrow> 'b route" where
  "with_locations r lo ld =
     \<lparr>origin = lo, destination = ld,
      air_distance_km = air_distance_km r, ground_distance_km = ground_distance_km r,
      base_cost_per_kg = base_cost_per_kg r, route_complexity = route_complexity r,
      estimated_ground_days = estimated_ground_days r, major_hubs = major_hubs r,
      route_description = route_description r, is_fallback = is_fallback r\<rparr>"

text \<open>The route dict at an address as the computations read it, its two locations
  followed.\<close>

definition deref_route :: "heap \<Rightarrow> addr \<Rightarrow> error + route_data" where
  "deref_route h a =
     (case load_route h a of
        Inl e \<Rightarrow> Inl e
      | Inr r \<Rightarrow>
         (case load_location h (origin r) of
            Inl e \<Rightarrow> Inl e
          | Inr lo \<Rightarrow>
             (case load_location h (destination r) of
                Inl e \<Rightarrow> Inl e
              | Inr ld \<Rightarrow> Inr (with_locations r lo ld))))"

subsection \<open>Lane resolver on the store\<close>

text \<open>\<^verbatim>\<open>find_route_by_cities\<close> over the entries of the \<^verbatim>\<open>DEMO_ROUTES\<close> object; it returns
  the key and the reference of the matching route dict.\<close>

fun find_route_items_h ::
  "heap \<Rightarrow> (string \<times> addr) list \<Rightarrow> string \<Rightarrow> string \<Rightarrow> error + (string \<times> addr) option" where
  "find_route_items_h h [] origin_city destination_city = Inr None"
| "find_route_items_h h ((rk, a) # rest) origin_city destination_city =
     (case deref_route h a of
        Inl e \<Rightarrow> Inl e
      | Inr rd \<Rightarrow>
          if lower (city (origin rd)) = lower origin_city
             \<and> lower (city (destination rd)) = lower destination_city
          then Inr (Some (rk, a))
          else find_route_items_h h rest origin_city destination_city)"

definition find_route_by_cities_h ::
  "globals \<Rightarrow> heap \<Rightarrow> string \<Rightarrow> string \<Rightarrow> error + (string \<times> addr) option" where
  "find_route_by_cities_h g h origin_city destination_city =
     (case load_dict h (g_DEMO_ROUTES g) of
        Inl e \<Rightarrow> Inl e
      | Inr items \<Rightarrow> find_route_items_h h items origin_city destination_city)"

text \<open>\<^verbatim>\<open>_swap_route_direction\<close>: \<^verbatim>\<open>route_data.copy()\<close> allocates a new dict with the same
  entries, references included; the tuple on the right of the assignment is read from the
  original; the two assignments store into the copy.\<close>

definition swap_route_direction_h :: "heap \<Rightarrow> addr \<Rightarrow> (error + addr) \<times> heap" where
  "swap_route_direction_h h a =
     (case load_route h a of
        Inl e \<Rightarrow> (Inl e, h)
      | Inr r \<Rightarrow>
         (let (swapped, h1) = alloc h (CRoute r);
              new_origin = destination r;
              new_destination = origin r;
              h2 = store h1 swapped (CRoute (r\<lparr>origin := new_origin\<rparr>));
              h3 = store h2 swapped
                     (CRoute (r\<lparr>origin := new_origin, destination := new_destination\<rparr>))
          in (Inr swapped, h3)))"

definition route_lookup_h ::
  "globals \<Rightarrow> heap \<Rightarrow> string \<Rightarrow> string \<Rightarrow> (error + (string option \<times> addr option)) \<times> heap" where
  "route_lookup_h g h origin_city destination_city =
     (case find_route_by_cities_h g h origin_city destination_city of
        Inl e \<Rightarrow> (Inl e, h)
      | Inr (Some (rk, a)) \<Rightarrow> (Inr (Some rk, Some a), h)
      | Inr None \<Rightarrow>
         (case find_route_by_cities_h g h destination_city origin_city of
            Inl e \<Rightarrow> (Inl e, h)
          | Inr (Some (rk, a)) \<Rightarrow>
             (case swap_route_direction_h h a of
                (Inl e, h1) \<Rightarrow> (Inl e, h1)
              | (Inr swapped, h1) \<Rightarrow> (Inr (Some rk, Some swapped), h1))
          | Inr None \<Rightarrow> (Inr (None, None), h)))"

text \<open>\<^verbatim>\<open>list(DEMO_ROUTES.values())\<close>, each route read with its locations.\<close>

definition all_routes_h :: "globals \<Rightarrow> heap \<Rightarrow> error + route_data list" where
  "all_routes_h g h =
     (case load_dict h (g_DEMO_ROUTES g) of
        Inl e \<Rightarrow> Inl e
      | Inr items \<Rightarrow> load_each deref_route h (map snd items))"

text \<open>\<^verbatim>\<open>get_fallback_route_data\<close>: three fresh dicts, the two locations and the route.\<close>

definition get_fallback_route_data_h ::
  "globals \<Rightarrow> heap \<Rightarrow> string \<Rightarrow> string \<Rightarrow> (error + addr) \<times> heap" where
  "get_fallback_route_data_h g h origin_city destination_city =
     (case all_routes_h g h of
        Inl e \<Rightarrow> (Inl e, h)
      | Inr all_routes \<Rightarrow>
         (case fallback_route_data_of all_routes origin_city destination_city of
            Inl e \<Rightarrow> (Inl e, h)
          | Inr rd \<Rightarrow>
             (let (lo, h1) = alloc h (CLocation (origin rd));
                  (ld, h2) = alloc h1 (CLocation (destination rd));
                  (a, h3) = alloc h2 (CRoute (with_locations rd lo ld))
              in (Inr a, h3))))"

definition resolve_route_h ::
  "globals \<Rightarrow> heap \<Rightarrow> string \<Rightarrow> string \<Rightarrow> (error + (string \<times> addr)) \<times> heap" where
  "resolve_route_h g h origin_city destination_city =
     (case route_lookup_h g h origin_city destination_city of
        (Inl e, h1) \<Rightarrow> (Inl e, h1)
      | (Inr (Some rk, Some a), h1) \<Rightarrow> (Inr (rk, a), h1)
      | (Inr _, h1) \<Rightarrow>
         (case get_fallback_route_data_h g h1 origin_city destination_city of
            (Inl e, h2) \<Rightarrow> (Inl e, h2)
          | (Inr a, h2) \<Rightarrow>
              (Inr (''FALLBACK_'' @ upper origin_city @ ''_'' @ upper destination_city, a), h2)))"

subsection \<open>Quote pipeline on the store\<close>

text \<open>The \<^verbatim>\<open>try\<close> block for one service: the route and the service are read through
  their references, the quote is computed as above.\<close>

definition tier_quote_h ::
  "heap \<Rightarrow> addr \<Rightarrow> string \<Rightarrow> rat \<Rightarrow> string \<Rightarrow> addr \<Rightarrow> error + quote" where
  "tier_quote_h h route_ref rk w service_key service_ref =
     (case deref_route h route_ref of
        Inl e \<Rightarrow> Inl e
      | Inr rd \<Rightarrow>
         (case load_service h service_ref of
            Inl e \<Rightarrow> Inl e
          | Inr sd \<Rightarrow> tier_quote rd rk w service_key sd))"

text \<open>The loop over \<^verbatim>\<open>UPS_SERVICES.items()\<close>: each quote is a fresh dict, appended to
  the local list; a service whose quote raises is skipped.\<close>

fun collect_quotes_h ::
  "heap \<Rightarrow> addr \<Rightarrow> string \<Rightarrow> rat \<Rightarrow> (string \<times> addr) list \<Rightarrow> addr list \<Rightarrow> addr list \<times> heap" where
  "collect_quotes_h h route_ref rk w [] qrefs = (qrefs, h)"
| "collect_quotes_h h route_ref rk w ((service_key, service_ref) # rest) qrefs =
     (case tier_quote_h h route_ref rk w service_key service_ref of
        Inl e \<Rightarrow> collect_quotes_h h route_ref rk w rest qrefs
      | Inr q \<Rightarrow>
         (case alloc h (CQuote q) of
            (qref, h1) \<Rightarrow> collect_quotes_h h1 route_ref rk w rest (qrefs @ [qref])))"

text \<open>\<^verbatim>\<open>quotes.sort(key=...)\<close>: the references reordered by the key of their quotes.\<close>

definition sort_quotes_h :: "heap \<Rightarrow> addr list \<Rightarrow> error + addr list" where
  "sort_quotes_h h qrefs =
     (case load_each load_quote h qrefs of
        Inl e \<Rightarrow> Inl e
      | Inr qs \<Rightarrow> Inr (map fst (sort_key (\<lambda>p. quote_sort_key (snd p)) (zip qrefs qs))))"

text \<open>The first loop of \<^verbatim>\<open>carbon_comparison\<close>: a fresh result dict per service.\<close>

fun carbon_results_h ::
  "heap \<Rightarrow> string \<Rightarrow> rat \<Rightarrow> (string \<times> addr) list \<Rightarrow> addr list \<Rightarrow> addr list \<times> heap" where
  "carbon_results_h h rk w [] rrefs = (rrefs, h)"
| "carbon_results_h h rk w ((service_key, service_ref) # rest) rrefs =
     (case load_service h service_ref of
        Inl e \<Rightarrow> carbon_results_h h rk w rest rrefs
      | Inr sd \<Rightarrow>
         (case calculate_carbon_footprint rk w sd of
            Inl e \<Rightarrow> carbon_results_h h rk w rest rrefs
          | Inr cb \<Rightarrow>
             (case alloc h (CCarbonResult
                      \<lparr>cr_service_key = service_key, cr_service_name = name sd,
                       cr_carbon_breakdown = cb, cr_priority_level = priority_level sd,
                       cr_carbon_savings_percentage = 0, cr_eco_badge = LEVEL_STANDARD\<rparr>) of
                (rref, h1) \<Rightarrow> carbon_results_h h1 rk w rest (rrefs @ [rref]))))"

text \<open>The second loop of \<^verbatim>\<open>carbon_comparison\<close>: two assignments into each result dict.\<close>

fun assign_badges_h ::
  "heap \<Rightarrow> (addr \<times> carbon_result) list \<Rightarrow> rat \<Rightarrow> rat \<Rightarrow> rat \<Rightarrow> heap" where
  "assign_badges_h h [] min_carbon max_carbon avg_carbon = h"
| "assign_badges_h h ((rref, r) # rest) min_carbon max_carbon avg_carbon =
     (let carbon_kg = total_co2_kg (cr_carbon_breakdown r);
          savings_percentage =
            (if max_carbon > 0 then ((max_carbon - carbon_kg) / max_carbon) * 100 else 0);
          badge = assign_eco_badge carbon_kg min_carbon max_carbon avg_carbon;
          r1 = r\<lparr>cr_carbon_savings_percentage := py_round savings_percentage 1\<rparr>;
          h1 = store h rref (CCarbonResult r1);
          h2 = store h1 rref (CCarbonResult (r1\<lparr>cr_eco_badge := badge\<rparr>))
      in assign_badges_h h2 rest min_carbon max_carbon avg_carbon)"

text \<open>\<^verbatim>\<open>carbon_comparison\<close>, as far as objects go: it returns the references of the
  result dicts, sorted by emissions and completed.\<close>

definition carbon_comparison_h ::
  "globals \<Rightarrow> heap \<Rightarrow> string \<Rightarrow> rat \<Rightarrow> (error + addr list) \<times> heap" where
  "carbon_comparison_h g h rk w =
     (case load_dict h (g_UPS_SERVICES g) of
        Inl e \<Rightarrow> (Inl e, h)
      | Inr items \<Rightarrow>
         (case carbon_results_h h rk w items [] of
            (rrefs, h1) \<Rightarrow>
              if rrefs = []
              then (Inl (ValueError ''No valid carbon calculations could be performed''), h1)
              else
               (case load_each load_carbon_result h1 rrefs of
                  Inl e \<Rightarrow> (Inl e, h1)
                | Inr rs \<Rightarrow>
                   (let sorted_results =
                          sort_key (\<lambda>p. total_co2_kg (cr_carbon_breakdown (snd p))) (zip rrefs rs);
                        carbon_values =
                          map (\<lambda>p. total_co2_kg (cr_carbon_breakdown (snd p))) sorted_results;
                        min_carbon = py_min carbon_values;
                        max_carbon = py_max carbon_values;
                        avg_carbon = sum_list carbon_values / of_nat (length carbon_values);
                        h2 = assign_badges_h h1 sorted_results min_carbon max_carbon avg_carbon
                    in (Inr (map fst sorted_results), h2)))))"

text \<open>The loop of \<^verbatim>\<open>_add_eco_badges_to_quotes\<close>: two assignments into each quote dict.\<close>

fun badge_quotes_h ::
  "heap \<Rightarrow> (string \<rightharpoonup> EcoBadgeLevel \<times> rat) \<Rightarrow> addr list \<Rightarrow> (error + unit) \<times> heap" where
  "badge_quotes_h h carbon_lookup [] = (Inr (), h)"
| "badge_quotes_h h carbon_lookup (qref # rest) =
     (case load_quote h qref of
        Inl e \<Rightarrow> (Inl e, h)
      | Inr q \<Rightarrow>
         (let (badge, savings) =
                (case carbon_lookup (q_service_name q) of
                   Some bs \<Rightarrow> bs
                 | None \<Rightarrow> (LEVEL_STANDARD, 0));
              q1 = q\<lparr>q_eco_badge := Some badge\<rparr>;
              h1 = store h qref (CQuote q1);
              h2 = store h1 qref (CQuote (q1\<lparr>q_carbon_savings_percentage := Some savings\<rparr>))
          in badge_quotes_h h2 carbon_lookup rest))"

definition add_eco_badges_to_quotes_h ::
  "heap \<Rightarrow> addr list \<Rightarrow> error + addr list \<Rightarrow> (error + unit) \<times> heap" where
  "add_eco_badges_to_quotes_h h qrefs ccd =
     (case ccd of
        Inl e \<Rightarrow> (Inr (), h)
      | Inr rrefs \<Rightarrow>
         (case load_each load_carbon_result h rrefs of
            Inl e \<Rightarrow> (Inl e, h)
          | Inr rs \<Rightarrow>
              badge_quotes_h h
                (map_of (rev (map (\<lambda>r. (cr_service_name r,
                                        (cr_eco_badge r, cr_carbon_savings_percentage r))) rs)))
                qrefs))"

text \<open>\<^verbatim>\<open>generate_shipping_quotes\<close> on the store. It returns the references of the quote
  dicts in their final order; an error is returned with the store as it was left. A
  failure of the carbon comparison is caught, as in the source, and only turns the badges
  off.\<close>

definition generate_shipping_quotes_h ::
  "globals \<Rightarrow> heap \<Rightarrow> string \<Rightarrow> string \<Rightarrow> rat \<Rightarrow> (error + addr list) \<times> heap" where
  "generate_shipping_quotes_h g h origin_city destination_city w =
     (case validate_quote_inputs origin_city destination_city w of
        Inl e \<Rightarrow> (Inl e, h)
      | Inr _ \<Rightarrow>
         (case resolve_route_h g h origin_city destination_city of
            (Inl e, h1) \<Rightarrow> (Inl e, h1)
          | (Inr (rk, route_ref), h1) \<Rightarrow>
             (case load_dict h1 (g_UPS_SERVICES g) of
                Inl e \<Rightarrow> (Inl e, h1)
              | Inr items \<Rightarrow>
                 (case collect_quotes_h h1 route_ref rk w items [] of
                    (qrefs0, h2) \<Rightarrow>
                      if qrefs0 = []
                      then (Inl (ValueError ''No valid quotes could be generated''), h2)
                      else
                       (case sort_quotes_h h2 qrefs0 of
                          Inl e \<Rightarrow> (Inl e, h2)
                        | Inr qrefs1 \<Rightarrow>
                           (case carbon_comparison_h g h2 rk w of
                              (ccd, h3) \<Rightarrow>
                                (case add_eco_badges_to_quotes_h h3 qrefs1 ccd of
                                   (Inl e, h4) \<Rightarrow> (Inl e, h4)
                                 | (Inr _, h4) \<Rightarrow> (Inr qrefs1, h4))))))))"

subsection \<open>The store at module load\<close>

text \<open>Each catalog entry becomes an object; a route gets its two location objects
  first. The three catalog dicts hold the references.\<close>

fun alloc_services :: "heap \<Rightarrow> (string \<times> service_data) list \<Rightarrow> (string \<times> addr) list \<times> heap" where
  "alloc_services h [] = ([], h)"
| "alloc_services h ((k, sd) # rest) =
     (case alloc h (CService sd) of
        (a, h1) \<Rightarrow> (case alloc_services h1 rest of (items, h2) \<Rightarrow> ((k, a) # items, h2)))"

fun alloc_routes :: "heap \<Rightarrow> (string \<times> route_data) list \<Rightarrow> (string \<times> addr) list \<times> heap" where
  "alloc_routes h [] = ([], h)"
| "alloc_routes h ((k, rd) # rest) =
     (case alloc h (CLocation (origin rd)) of
        (lo, h1) \<Rightarrow>
          (case alloc h1 (CLocation (destination rd)) of
             (ld, h2) \<Rightarrow>
               (case alloc h2 (CRoute (with_locations rd lo ld)) of
                  (a, h3) \<Rightarrow>
                    (case alloc_routes h3 rest of (items, h4) \<Rightarrow> ((k, a) # items, h4)))))"

fun alloc_weight_categories ::
  "heap \<Rightarrow> (WeightCategory \<times> weight_category_data) list \<Rightarrow> (WeightCategory \<times> addr) list \<times> heap" where
  "alloc_weight_categories h [] = ([], h)"
| "alloc_weight_categories h ((k, cd) # rest) =
     (case alloc h (CWeightCategory cd) of
        (a, h1) \<Rightarrow>
          (case alloc_weight_categories h1 rest of (items, h2) \<Rightarrow> ((k, a) # items, h2)))"

definition module_load :: "globals \<times> heap" where
  "module_load =
     (case alloc_services [] UPS_SERVICES of
        (service_items, h1) \<Rightarrow>
          (case alloc h1 (CDict service_items) of
             (services_ref, h2) \<Rightarrow>
               (case alloc_routes h2 DEMO_ROUTES of
                  (route_items, h3) \<Rightarrow>
                    (case alloc h3 (CDict route_items) of
                       (routes_ref, h4) \<Rightarrow>
                         (case alloc_weight_categories h4 WEIGHT_CATEGORIES of
                            (weight_items, h5) \<Rightarrow>
                              (case alloc h5 (CWeightDict weight_items) of
                                 (weights_ref, h6) \<Rightarrow>
                                   (\<lparr>g_UPS_SERVICES = services_ref,
                                     g_DEMO_ROUTES = routes_ref,
                                     g_WEIGHT_CATEGORIES = weights_ref\<rparr>, h6)))))))"

text \<open>The catalogs as the store holds them: each dict read back entry by entry.\<close>

fun read_items :: "(heap \<Rightarrow> addr \<Rightarrow> error + 'a) \<Rightarrow> heap \<Rightarrow> ('k \<times> addr) list \<Rightarrow> error + ('k \<times> 'a) list" where
  "read_items ld h [] = Inr []"
| "read_items ld h ((k, a) # rest) =
     (case ld h a of
        Inl e \<Rightarrow> Inl e
      | Inr x \<Rightarrow> (case read_items ld h rest of Inl e \<Rightarrow> Inl e | Inr xs \<Rightarrow> Inr ((k, x) # xs)))"

definition stored_services :: "globals \<Rightarrow> heap \<Rightarrow> error + (string \<times> service_data) list" where
  "stored_services g h =
     (case load_dict h (g_UPS_SERVICES g) of
        Inl e \<Rightarrow> Inl e | Inr items \<Rightarrow> read_items load_service h items)"

definition stored_routes :: "globals \<Rightarrow> heap \<Rightarrow> error + (string \<times> route_data) list" where
  "stored_routes g h =
     (case load_dict h (g_DEMO_ROUTES g) of
        Inl e \<Rightarrow> Inl e | Inr items \<Rightarrow> read_items deref_route h items)"

definition stored_weight_categories ::
  "globals \<Rightarrow> heap \<Rightarrow> error + (WeightCategory \<times> weight_category_data) list" where
  "stored_weight_categories g h =
     (case load_weight_dict h (g_WEIGHT_CATEGORIES g) of
        Inl e \<Rightarrow> Inl e | Inr items \<Rightarrow> read_items load_weight_category h items)"

text \<open>A call of the public interface, and a sequence of calls run one after the other on
  the store.\<close>

datatype call = Quotes string string rat | Lookup string string | Fallback string string

definition run_call :: "globals \<Rightarrow> heap \<Rightarrow> call \<Rightarrow> heap" where
  "run_call g h c =
     (case c of
        Quotes origin_city destination_city w \<Rightarrow>
          snd (generate_shipping_quotes_h g h origin_city destination_city w)
      | Lookup origin_city destination_city \<Rightarrow>
          snd (route_lookup_h g h origin_city destination_city)
      | Fallback origin_city destination_city \<Rightarrow>
          snd (get_fallback_route_data_h g h origin_city destination_city))"

definition run_calls :: "globals \<Rightarrow> heap \<Rightarrow> call list \<Rightarrow> heap" where
  "run_calls g h cs = foldl (run_call g) h cs"

section \<open>The specification's own formulations\<close>

text \<open>The definitions of this section follow the wording of the specification, not the
  code; the theorems below compare them with the functions embedded above.\<close>











text \<open>Spec 4.5. Business days are Monday to Friday; the number of business days after a
  date \<open>a\<close> and up to a date \<open>b\<close>, both ends as in \<open>a < d \<le> b\<close>.\<close>

definition business_days_between :: "int \<Rightarrow> int \<Rightarrow> nat" where
  "business_days_between a b = length (filter is_business_day [a + 1..b])"




text \<open>Claim C9 in terms of the store: every object below the address \<open>n\<close> is the same in
  the store \<open>h'\<close> as in the store \<open>h\<close>, and no object of \<open>h\<close> is gone.\<close>

definition unchanged_below :: "nat \<Rightarrow> heap \<Rightarrow> heap \<Rightarrow> bool" where
  "unchanged_below n h h' = (length h \<le> length h' \<and> take n h' = take n h)"

section \<open>Evaluation of rational arithmetic\<close>

lemma floor_rat_numeral_div [simp]:
  "\<lfloor>(numeral a :: rat) / numeral b\<rfloor> = numeral a div numeral b"
  using floor_divide_of_int_eq [of "numeral a" "numeral b", where 'a = rat] by simp

section \<open>Cost engine\<close>











section \<open>Eco scorer\<close>

text \<open>
  Claim C1. The adjustment chain gives UPS Next Day Air Early \<open>-15%\<close>, UPS Next Day Air
  \<open>-8%\<close>, UPS 2nd Day Air \<open>+28%\<close>, UPS 3-Day Select \<open>+30%\<close> and UPS Ground \<open>+32%\<close>, and the
  adjusted score is base \<open>\<times>\<close> (1 + adjustment), scaled by 25 and clamped. For UPS Next Day Air
  Saver the claim's \<open>+25%\<close> is not what the chain computes: the name contains
  \<^verbatim>\<open>Next Day Air\<close> and does not contain \<^verbatim>\<open>Early\<close>, so the second test catches it and the
  adjustment is \<open>-8%\<close>; the branch written for the Saver is never reached. A quote named
  UPS Next Day Air Saver is scored from base \<open>\<times>\<close> 0.92, not base \<open>\<times>\<close> 1.25.
\<close>

theorem saver_adjustment_is_minus_8_percent:
  "business_adjustment ''UPS Next Day Air Early'' = - 0.15
   \<and> business_adjustment ''UPS Next Day Air'' = - 0.08
   \<and> business_adjustment ''UPS Next Day Air Saver'' = - 0.08
   \<and> business_adjustment ''UPS 2nd Day Air'' = 0.28
   \<and> business_adjustment ''UPS 3-Day Select'' = 0.30
   \<and> business_adjustment ''UPS Ground'' = 0.32
   \<and> apply_business_logic ws (q\<lparr>q_service_name := ''UPS Next Day Air Saver''\<rparr>) c e i n
       = max 0 (min 25 (base_score ws c e * 0.92 * 25))
   \<and> apply_business_logic default_weights (q\<lparr>q_service_name := ''UPS Next Day Air Saver''\<rparr>) 1 1 i n
       = 23
   \<and> max 0 (min 25 (base_score default_weights 1 1 * 1.25 * 25)) = (25::rat)"
proof -
  have early: "business_adjustment ''UPS Next Day Air Early'' = - 0.15"
    by (simp add: business_adjustment_def sublist_Cons_right)
  have nda: "business_adjustment ''UPS Next Day Air'' = - 0.08"
    by (simp add: business_adjustment_def sublist_Cons_right)
  have saver: "business_adjustment ''UPS Next Day Air Saver'' = - 0.08"
    by (simp add: business_adjustment_def sublist_Cons_right)
  have second: "business_adjustment ''UPS 2nd Day Air'' = 0.28"
    by (simp add: business_adjustment_def sublist_Cons_right)
  have third: "business_adjustment ''UPS 3-Day Select'' = 0.30"
    by (simp add: business_adjustment_def sublist_Cons_right)
  have ground: "business_adjustment ''UPS Ground'' = 0.32"
    by (simp add: business_adjustment_def sublist_Cons_right)
  have general: "apply_business_logic ws' (q\<lparr>q_service_name := ''UPS Next Day Air Saver''\<rparr>) c' e' i n
       = max 0 (min 25 (base_score ws' c' e' * 0.92 * 25))" for ws' c' e'
    by (simp add: apply_business_logic_def Let_def saver)
  have base1: "base_score default_weights 1 1 = 1"
    by (simp add: base_score_def default_weights_def)
  have code: "apply_business_logic default_weights
                (q\<lparr>q_service_name := ''UPS Next Day Air Saver''\<rparr>) 1 1 i n = 23"
    by (simp add: general base1)
  have claim: "max 0 (min 25 (base_score default_weights 1 1 * 1.25 * 25)) = (25::rat)"
    by (simp add: base1)
  note general_here = general [of ws c e]
  show ?thesis
    by (intro conjI) (fact early nda saver second third ground general_here code claim)+
qed
lemma determine_tier_bands:
  "determine_tier s =
     (if 21 \<le> s \<and> s \<le> 25 then ''excellent''
      else if 17 \<le> s \<and> s \<le> 20 then ''very_good''
      else if 13 \<le> s \<and> s \<le> 16 then ''good''
      else if 9 \<le> s \<and> s \<le> 12 then ''fair''
      else if 5 \<le> s \<and> s \<le> 8 then ''poor''
      else if 0 \<le> s \<and> s \<le> 4 then ''very_poor''
      else ''unranked'')"
  by (simp only: determine_tier_def TIER_RANGES_def determine_tier_in.simps of_int_numeral
      of_int_0)

text \<open>
  Claim C2. A score inside one of the six bands receives that band's label. The bands have
  integer ends and the score is a float that is not rounded before the lookup, so a score
  strictly between two bands, such as 20.5, lies in [0, 25] and receives none of the six
  labels: the loop falls through to \<^verbatim>\<open>unranked\<close>.
\<close>

theorem determine_tier_gap_is_unranked:
  "(0::rat) \<le> 20.5 \<and> (20.5::rat) \<le> 25 \<and> determine_tier 20.5 = ''unranked''
   \<and> determine_tier 20 = ''very_good'' \<and> determine_tier 21 = ''excellent''"
  by (simp add: determine_tier_bands)

section \<open>Carbon engine\<close>












section \<open>Quote pipeline\<close>

lemma strip_Nil [simp]: "strip [] = []"
  by (simp add: strip_def)






























section \<open>Delivery dates\<close>


lemma business_days_between_refl [simp]: "business_days_between c c = 0"
  by (simp add: business_days_between_def)












section \<open>Lane resolver\<close>






lemma swap_route_direction_twice: "swap_route_direction (swap_route_direction rd) = rd"
  by (simp add: swap_route_direction_def)





section \<open>The store\<close>

lemma unchanged_refl [simp]: "unchanged_below n h h"
  by (simp add: unchanged_below_def)

lemma unchanged_trans:
  "unchanged_below n h h1 \<Longrightarrow> unchanged_below n h1 h2 \<Longrightarrow> unchanged_below n h h2"
  by (simp add: unchanged_below_def)

lemma unchanged_alloc:
  assumes "n \<le> length h" "alloc h c = (a, h')"
  shows "unchanged_below n h h'" "a = length h" "n \<le> a" "n \<le> length h'"
  using assms by (auto simp: alloc_def unchanged_below_def)

lemma unchanged_store:
  assumes "n \<le> a"
  shows "unchanged_below n h (store h a c)"
  using assms by (simp add: store_def unchanged_below_def)

lemma unchanged_length: "unchanged_below n h h' \<Longrightarrow> n \<le> length h \<Longrightarrow> n \<le> length h'"
  by (simp add: unchanged_below_def)

lemma swap_route_direction_h_frame:
  assumes "n \<le> length h"
  shows "unchanged_below n h (snd (swap_route_direction_h h a))"
proof (cases "load_route h a")
  case (Inl e)
  then show ?thesis by (simp add: swap_route_direction_h_def)
next
  case (Inr r)
  obtain s h1 where a: "alloc h (CRoute r) = (s, h1)" by (cases "alloc h (CRoute r)")
  note u = unchanged_alloc [OF assms a]
  let ?h2 = "store h1 s (CRoute (r\<lparr>origin := destination r\<rparr>))"
  let ?h3 = "store ?h2 s (CRoute (r\<lparr>origin := destination r, destination := origin r\<rparr>))"
  have "unchanged_below n h1 ?h2" using u(3) by (rule unchanged_store)
  moreover have "unchanged_below n ?h2 ?h3" using u(3) by (rule unchanged_store)
  ultimately have "unchanged_below n h ?h3" using u(1) by (blast intro: unchanged_trans)
  then show ?thesis by (simp add: swap_route_direction_h_def Inr a Let_def)
qed

lemma route_lookup_h_frame:
  assumes "n \<le> length h"
  shows "unchanged_below n h (snd (route_lookup_h g h oc dc))"
  using swap_route_direction_h_frame [OF assms]
  by (auto simp: route_lookup_h_def split: sum.splits option.splits prod.splits)
     (metis snd_conv)+

lemma get_fallback_route_data_h_frame:
  assumes "n \<le> length h"
  shows "unchanged_below n h (snd (get_fallback_route_data_h g h oc dc))"
proof (cases "all_routes_h g h")
  case (Inl e)
  then show ?thesis by (simp add: get_fallback_route_data_h_def)
next
  case (Inr all_routes)
  show ?thesis
  proof (cases "fallback_route_data_of all_routes oc dc")
    case (Inl e)
    with Inr show ?thesis by (simp add: get_fallback_route_data_h_def)
  next
    case rd: (Inr rd)
    obtain lo h1 where a1: "alloc h (CLocation (origin rd)) = (lo, h1)"
      by (cases "alloc h (CLocation (origin rd))")
    obtain ld h2 where a2: "alloc h1 (CLocation (destination rd)) = (ld, h2)"
      by (cases "alloc h1 (CLocation (destination rd))")
    obtain a h3 where a3: "alloc h2 (CRoute (with_locations rd lo ld)) = (a, h3)"
      by (cases "alloc h2 (CRoute (with_locations rd lo ld))")
    note u1 = unchanged_alloc [OF assms a1]
    note u2 = unchanged_alloc [OF u1(4) a2]
    note u3 = unchanged_alloc [OF u2(4) a3]
    from u1(1) u2(1) u3(1) have "unchanged_below n h h3" by (blast intro: unchanged_trans)
    then show ?thesis
      by (simp add: get_fallback_route_data_h_def Inr rd a1 a2 a3)
  qed
qed

lemma resolve_route_h_frame:
  assumes "n \<le> length h"
  shows "unchanged_below n h (snd (resolve_route_h g h oc dc))"
proof -
  obtain r h1 where l: "route_lookup_h g h oc dc = (r, h1)" by (cases "route_lookup_h g h oc dc")
  from route_lookup_h_frame [OF assms, of g oc dc] l have u1: "unchanged_below n h h1" by simp
  from unchanged_length [OF u1 assms] have n1: "n \<le> length h1" .
  obtain r2 h2 where f: "get_fallback_route_data_h g h1 oc dc = (r2, h2)"
    by (cases "get_fallback_route_data_h g h1 oc dc")
  from get_fallback_route_data_h_frame [OF n1, of g oc dc] f have "unchanged_below n h1 h2" by simp
  with u1 have u2: "unchanged_below n h h2" by (rule unchanged_trans)
  from u1 u2 show ?thesis
    by (auto simp: resolve_route_h_def l f split: sum.splits option.splits prod.splits)
qed

lemma collect_quotes_h_frame:
  assumes "n \<le> length h" "\<forall>a\<in>set qrefs. n \<le> a"
    and "collect_quotes_h h rr rk w items qrefs = (qrefs', h')"
  shows "unchanged_below n h h' \<and> (\<forall>a\<in>set qrefs'. n \<le> a)"
  using assms
proof (induction items arbitrary: h qrefs)
  case Nil
  then show ?case by simp
next
  case (Cons item items)
  obtain k sa where item: "item = (k, sa)" by (cases item)
  show ?case
  proof (cases "tier_quote_h h rr rk w k sa")
    case (Inl e)
    with Cons.prems(3) have "collect_quotes_h h rr rk w items qrefs = (qrefs', h')"
      by (simp add: item)
    from Cons.IH [OF Cons.prems(1,2) this] show ?thesis .
  next
    case (Inr q)
    obtain qa h1 where a: "alloc h (CQuote q) = (qa, h1)" by (cases "alloc h (CQuote q)")
    note u = unchanged_alloc [OF Cons.prems(1) a]
    from Cons.prems(3) have c: "collect_quotes_h h1 rr rk w items (qrefs @ [qa]) = (qrefs', h')"
      by (simp add: item Inr a)
    from Cons.prems(2) u(3) have "\<forall>a\<in>set (qrefs @ [qa]). n \<le> a" by simp
    from Cons.IH [OF u(4) this c] u(1) show ?thesis by (blast intro: unchanged_trans)
  qed
qed

lemma carbon_results_h_frame:
  assumes "n \<le> length h" "\<forall>a\<in>set rrefs. n \<le> a"
    and "carbon_results_h h rk w items rrefs = (rrefs', h')"
  shows "unchanged_below n h h' \<and> (\<forall>a\<in>set rrefs'. n \<le> a)"
  using assms
proof (induction items arbitrary: h rrefs)
  case Nil
  then show ?case by simp
next
  case (Cons item items)
  obtain k sa where item: "item = (k, sa)" by (cases item)
  show ?case
  proof (cases "load_service h sa")
    case (Inl e)
    with Cons.prems(3) have "carbon_results_h h rk w items rrefs = (rrefs', h')"
      by (simp add: item)
    from Cons.IH [OF Cons.prems(1,2) this] show ?thesis .
  next
    case sd: (Inr sd)
    show ?thesis
    proof (cases "calculate_carbon_footprint rk w sd")
      case (Inl e)
      with sd Cons.prems(3) have "carbon_results_h h rk w items rrefs = (rrefs', h')"
        by (simp add: item)
      from Cons.IH [OF Cons.prems(1,2) this] show ?thesis .
    next
      case (Inr cb)
      let ?c = "CCarbonResult
                  \<lparr>cr_service_key = k, cr_service_name = name sd,
                   cr_carbon_breakdown = cb, cr_priority_level = priority_level sd,
                   cr_carbon_savings_percentage = 0, cr_eco_badge = LEVEL_STANDARD\<rparr>"
      obtain ra h1 where a: "alloc h ?c = (ra, h1)" by (cases "alloc h ?c")
      note u = unchanged_alloc [OF Cons.prems(1) a]
      from Cons.prems(3) have c: "carbon_results_h h1 rk w items (rrefs @ [ra]) = (rrefs', h')"
        by (simp add: item sd Inr a)
      from Cons.prems(2) u(3) have "\<forall>a\<in>set (rrefs @ [ra]). n \<le> a" by simp
      from Cons.IH [OF u(4) this c] u(1) show ?thesis by (blast intro: unchanged_trans)
    qed
  qed
qed

lemma assign_badges_h_frame:
  assumes "\<forall>p\<in>set ps. n \<le> fst p"
  shows "unchanged_below n h (assign_badges_h h ps mn mx av)"
  using assms
proof (induction ps arbitrary: h)
  case Nil
  then show ?case by simp
next
  case (Cons p ps)
  obtain a r where p: "p = (a, r)" by (cases p)
  from Cons.prems have na: "n \<le> a" and rest: "\<forall>p\<in>set ps. n \<le> fst p" by (simp_all add: p)
  show ?case
    unfolding p assign_badges_h.simps Let_def
    by (rule unchanged_trans [OF unchanged_trans [OF unchanged_store [OF na]
              unchanged_store [OF na]] Cons.IH [OF rest]])
qed

lemma sorted_zip_refs:
  "fst ` set (sort_key f (zip refs xs)) \<subseteq> set refs"
  by (auto dest: set_zip_leftD)

lemma carbon_comparison_h_frame:
  assumes "n \<le> length h"
  shows "unchanged_below n h (snd (carbon_comparison_h g h rk w))"
proof (cases "load_dict h (g_UPS_SERVICES g)")
  case (Inl e)
  then show ?thesis by (simp add: carbon_comparison_h_def)
next
  case (Inr items)
  obtain rrefs h1 where c: "carbon_results_h h rk w items [] = (rrefs, h1)"
    by (cases "carbon_results_h h rk w items []")
  from carbon_results_h_frame [OF assms _ c] have
    u1: "unchanged_below n h h1" and fresh: "\<forall>a\<in>set rrefs. n \<le> a" by simp_all
  show ?thesis
  proof (cases "load_each load_carbon_result h1 rrefs")
    case (Inl e)
    with u1 show ?thesis by (simp add: carbon_comparison_h_def Inr c)
  next
    case rs: (Inr rs)
    let ?sorted = "sort_key (\<lambda>p. total_co2_kg (cr_carbon_breakdown (snd p))) (zip rrefs rs)"
    from fresh sorted_zip_refs [of _ rrefs rs] have "\<forall>p\<in>set ?sorted. n \<le> fst p"
      by (meson image_subset_iff)
    from assign_badges_h_frame [OF this] u1 show ?thesis
      by (auto simp: carbon_comparison_h_def Inr c rs Let_def intro: unchanged_trans)
  qed
qed

lemma badge_quotes_h_frame:
  assumes "\<forall>a\<in>set qrefs. n \<le> a"
  shows "unchanged_below n h (snd (badge_quotes_h h lk qrefs))"
  using assms
proof (induction qrefs arbitrary: h)
  case Nil
  then show ?case by simp
next
  case (Cons a qrefs)
  from Cons.prems have na: "n \<le> a" and rest: "\<forall>a\<in>set qrefs. n \<le> a" by simp_all
  show ?case
  proof (cases "load_quote h a")
    case (Inl e)
    then show ?thesis by simp
  next
    case (Inr q)
    obtain badge savings where
      bs: "(case lk (q_service_name q) of Some bs \<Rightarrow> bs | None \<Rightarrow> (LEVEL_STANDARD, 0))
             = (badge, savings)"
      by (cases "case lk (q_service_name q) of Some bs \<Rightarrow> bs | None \<Rightarrow> (LEVEL_STANDARD, 0)")
    show ?thesis
      unfolding badge_quotes_h.simps Inr sum.case Let_def bs prod.case
      by (rule unchanged_trans [OF unchanged_trans [OF unchanged_store [OF na]
                unchanged_store [OF na]] Cons.IH [OF rest]])
  qed
qed

lemma add_eco_badges_to_quotes_h_frame:
  assumes "\<forall>a\<in>set qrefs. n \<le> a"
  shows "unchanged_below n h (snd (add_eco_badges_to_quotes_h h qrefs ccd))"
  using badge_quotes_h_frame [OF assms]
  by (auto simp: add_eco_badges_to_quotes_h_def split: sum.splits)

lemma sort_quotes_h_refs:
  assumes "sort_quotes_h h qrefs = Inr qrefs1"
  shows "set qrefs1 \<subseteq> set qrefs"
proof -
  from assms obtain qs where
    "qrefs1 = map fst (sort_key (\<lambda>p. quote_sort_key (snd p)) (zip qrefs qs))"
    by (auto simp: sort_quotes_h_def split: sum.splits)
  then have "set qrefs1 = fst ` set (sort_key (\<lambda>p. quote_sort_key (snd p)) (zip qrefs qs))"
    by simp
  with sorted_zip_refs [of "\<lambda>p. quote_sort_key (snd p)" qrefs qs] show ?thesis by simp
qed

lemma generate_shipping_quotes_h_frame:
  assumes "n \<le> length h"
  shows "unchanged_below n h (snd (generate_shipping_quotes_h g h oc dc w))"
proof (cases "validate_quote_inputs oc dc w")
  case (Inl e)
  then show ?thesis by (simp add: generate_shipping_quotes_h_def)
next
  case v: (Inr u)
  obtain r h1 where rr: "resolve_route_h g h oc dc = (r, h1)"
    by (cases "resolve_route_h g h oc dc")
  from resolve_route_h_frame [OF assms, of g oc dc] rr have u1: "unchanged_below n h h1" by simp
  note n1 = unchanged_length [OF u1 assms]
  show ?thesis
  proof (cases r)
    case (Inl e)
    with u1 show ?thesis by (simp add: generate_shipping_quotes_h_def v rr)
  next
    case (Inr p)
    obtain rk ra where p: "p = (rk, ra)" by (cases p)
    show ?thesis
    proof (cases "load_dict h1 (g_UPS_SERVICES g)")
      case (Inl e)
      with u1 show ?thesis by (simp add: generate_shipping_quotes_h_def v rr Inr p)
    next
      case items: (Inr items)
      obtain qrefs0 h2 where c: "collect_quotes_h h1 ra rk w items [] = (qrefs0, h2)"
        by (cases "collect_quotes_h h1 ra rk w items []")
      from collect_quotes_h_frame [OF n1 _ c] have
        u2: "unchanged_below n h1 h2" and fresh: "\<forall>a\<in>set qrefs0. n \<le> a" by simp_all
      from u1 u2 have u12: "unchanged_below n h h2" by (rule unchanged_trans)
      note n2 = unchanged_length [OF u2 n1]
      show ?thesis
      proof (cases "qrefs0 = []")
        case True
        with u12 show ?thesis
          by (simp add: generate_shipping_quotes_h_def v rr Inr p items c)
      next
        case ne: False
        show ?thesis
        proof (cases "sort_quotes_h h2 qrefs0")
          case (Inl e)
          with u12 ne show ?thesis
            by (simp add: generate_shipping_quotes_h_def v rr Inr p items c)
        next
          case s: (Inr qrefs1)
          from sort_quotes_h_refs [OF s] fresh have fresh1: "\<forall>a\<in>set qrefs1. n \<le> a" by blast
          obtain ccd h3 where cc: "carbon_comparison_h g h2 rk w = (ccd, h3)"
            by (cases "carbon_comparison_h g h2 rk w")
          from carbon_comparison_h_frame [OF n2, of g rk w] cc have
            u3: "unchanged_below n h2 h3" by simp
          obtain b h4 where ab: "add_eco_badges_to_quotes_h h3 qrefs1 ccd = (b, h4)"
            by (cases "add_eco_badges_to_quotes_h h3 qrefs1 ccd")
          from add_eco_badges_to_quotes_h_frame [OF fresh1, of h3 ccd] ab have
            u4: "unchanged_below n h3 h4" by simp
          from u12 u3 u4 have "unchanged_below n h h4" by (blast intro: unchanged_trans)
          with ne show ?thesis
            by (simp add: generate_shipping_quotes_h_def v rr Inr p items c s cc ab
                split: sum.splits)
        qed
      qed
    qed
  qed
qed

lemma unchanged_prefix: "unchanged_below (length h) h h' \<longleftrightarrow> prefix h h'"
proof
  assume "unchanged_below (length h) h h'"
  then have "take (length h) h' = h" by (simp add: unchanged_below_def)
  then show "prefix h h'" by (metis take_is_prefix)
next
  assume "prefix h h'"
  then obtain zs where "h' = h @ zs" by (auto simp: prefix_def)
  then show "unchanged_below (length h) h h'" by (simp add: unchanged_below_def)
qed

lemma load_prefix:
  assumes "prefix h h'" "a < length h"
  shows "load h' a = load h a"
proof -
  from assms(1) obtain zs where "h' = h @ zs" by (auto simp: prefix_def)
  with assms(2) show ?thesis by (simp add: load_def nth_append)
qed

lemma prefix_alloc:
  assumes "alloc h c = (a, h')"
  shows "prefix h h'" "a < length h'" "load h' a = Inr c"
  using assms by (auto simp: alloc_def load_def)

lemma load_fresh:
  assumes "alloc h c = (a, h')" "prefix h' h''"
  shows "load h'' a = Inr c"
  using load_prefix [OF assms(2) prefix_alloc(2) [OF assms(1)]] prefix_alloc(3) [OF assms(1)]
  by simp

lemma with_locations_back:
  "with_locations (with_locations rd lo ld) (origin rd) (destination rd) = rd"
  by (simp add: with_locations_def)

lemma alloc_services_stored:
  assumes "alloc_services h svcs = (items, h')"
  shows "prefix h h' \<and> (\<forall>h''. prefix h' h'' \<longrightarrow> read_items load_service h'' items = Inr svcs)"
  using assms
proof (induction svcs arbitrary: h items)
  case Nil
  then show ?case by simp
next
  case (Cons s svcs)
  obtain k sd where s: "s = (k, sd)" by (cases s)
  obtain a h1 where a: "alloc h (CService sd) = (a, h1)" by (cases "alloc h (CService sd)")
  obtain items1 where r: "alloc_services h1 svcs = (items1, h')" and i: "items = (k, a) # items1"
    using Cons.prems by (auto simp: s a split: prod.splits)
  note p = prefix_alloc [OF a]
  note ih = Cons.IH [OF r]
  have "read_items load_service h'' items = Inr (s # svcs)" if "prefix h' h''" for h''
  proof -
    from that ih have "prefix h1 h''" by (meson prefix_order.trans)
    from load_fresh [OF a this] have "load_service h'' a = Inr sd"
      by (simp add: load_service_def)
    with that ih show ?thesis by (simp add: i s)
  qed
  with p(1) ih show ?case by (meson prefix_order.trans)
qed

lemma alloc_weight_categories_stored:
  assumes "alloc_weight_categories h cats = (items, h')"
  shows "prefix h h'
       \<and> (\<forall>h''. prefix h' h'' \<longrightarrow> read_items load_weight_category h'' items = Inr cats)"
  using assms
proof (induction cats arbitrary: h items)
  case Nil
  then show ?case by simp
next
  case (Cons s cats)
  obtain k cd where s: "s = (k, cd)" by (cases s)
  obtain a h1 where a: "alloc h (CWeightCategory cd) = (a, h1)"
    by (cases "alloc h (CWeightCategory cd)")
  obtain items1 where r: "alloc_weight_categories h1 cats = (items1, h')"
    and i: "items = (k, a) # items1"
    using Cons.prems by (auto simp: s a split: prod.splits)
  note p = prefix_alloc [OF a]
  note ih = Cons.IH [OF r]
  have "read_items load_weight_category h'' items = Inr (s # cats)" if "prefix h' h''" for h''
  proof -
    from that ih have "prefix h1 h''" by (meson prefix_order.trans)
    from load_fresh [OF a this] have "load_weight_category h'' a = Inr cd"
      by (simp add: load_weight_category_def)
    with that ih show ?thesis by (simp add: i s)
  qed
  with p(1) ih show ?case by (meson prefix_order.trans)
qed

lemma alloc_routes_stored:
  assumes "alloc_routes h rs = (items, h')"
  shows "prefix h h' \<and> (\<forall>h''. prefix h' h'' \<longrightarrow> read_items deref_route h'' items = Inr rs)"
  using assms
proof (induction rs arbitrary: h items)
  case Nil
  then show ?case by simp
next
  case (Cons s rs)
  obtain k rd where s: "s = (k, rd)" by (cases s)
  obtain lo h1 where a1: "alloc h (CLocation (origin rd)) = (lo, h1)"
    by (cases "alloc h (CLocation (origin rd))")
  obtain ld h2 where a2: "alloc h1 (CLocation (destination rd)) = (ld, h2)"
    by (cases "alloc h1 (CLocation (destination rd))")
  obtain a h3 where a3: "alloc h2 (CRoute (with_locations rd lo ld)) = (a, h3)"
    by (cases "alloc h2 (CRoute (with_locations rd lo ld))")
  obtain items1 where r: "alloc_routes h3 rs = (items1, h')" and i: "items = (k, a) # items1"
    using Cons.prems by (auto simp: s a1 a2 a3 split: prod.splits)
  note p1 = prefix_alloc [OF a1] and p2 = prefix_alloc [OF a2] and p3 = prefix_alloc [OF a3]
  note ih = Cons.IH [OF r]
  have "read_items deref_route h'' items = Inr (s # rs)" if "prefix h' h''" for h''
  proof -
    from that ih have 3: "prefix h3 h''" by (meson prefix_order.trans)
    with p3(1) have 2: "prefix h2 h''" by (meson prefix_order.trans)
    with p2(1) have 1: "prefix h1 h''" by (meson prefix_order.trans)
    from load_fresh [OF a3 3] have "load_route h'' a = Inr (with_locations rd lo ld)"
      by (simp add: load_route_def)
    moreover from load_fresh [OF a1 1] have "load_location h'' lo = Inr (origin rd)"
      by (simp add: load_location_def)
    moreover from load_fresh [OF a2 2] have "load_location h'' ld = Inr (destination rd)"
      by (simp add: load_location_def)
    ultimately have "deref_route h'' a = Inr rd"
      by (simp add: deref_route_def with_locations_back)
         (simp add: with_locations_def)
    with that ih show ?thesis by (simp add: i s)
  qed
  moreover from p1(1) p2(1) p3(1) ih have "prefix h h'" by (meson prefix_order.trans)
  ultimately show ?case by blast
qed

lemma module_load_stored:
  assumes "prefix (snd module_load) h"
  shows "stored_services (fst module_load) h = Inr UPS_SERVICES"
    and "stored_routes (fst module_load) h = Inr DEMO_ROUTES"
    and "stored_weight_categories (fst module_load) h = Inr WEIGHT_CATEGORIES"
proof -
  obtain sitems h1 where s: "alloc_services [] UPS_SERVICES = (sitems, h1)"
    by (cases "alloc_services [] UPS_SERVICES")
  obtain sref h2 where sd: "alloc h1 (CDict sitems) = (sref, h2)"
    by (cases "alloc h1 (CDict sitems)")
  obtain ritems h3 where r: "alloc_routes h2 DEMO_ROUTES = (ritems, h3)"
    by (cases "alloc_routes h2 DEMO_ROUTES")
  obtain rref h4 where rd: "alloc h3 (CDict ritems) = (rref, h4)"
    by (cases "alloc h3 (CDict ritems)")
  obtain witems h5 where w: "alloc_weight_categories h4 WEIGHT_CATEGORIES = (witems, h5)"
    by (cases "alloc_weight_categories h4 WEIGHT_CATEGORIES")
  obtain wref h6 where wd: "alloc h5 (CWeightDict witems) = (wref, h6)"
    by (cases "alloc h5 (CWeightDict witems)")
  have ml: "module_load =
    (\<lparr>g_UPS_SERVICES = sref, g_DEMO_ROUTES = rref, g_WEIGHT_CATEGORIES = wref\<rparr>, h6)"
    by (simp add: module_load_def s sd r rd w wd)
  note ps = alloc_services_stored [OF s] and pr = alloc_routes_stored [OF r]
    and pw = alloc_weight_categories_stored [OF w]
  from assms have 6: "prefix h6 h" by (simp add: ml)
  with prefix_alloc(1) [OF wd] have 5: "prefix h5 h" by (meson prefix_order.trans)
  with pw have 4: "prefix h4 h" by (meson prefix_order.trans)
  with prefix_alloc(1) [OF rd] have 3: "prefix h3 h" by (meson prefix_order.trans)
  with pr have 2: "prefix h2 h" by (meson prefix_order.trans)
  with prefix_alloc(1) [OF sd] have 1: "prefix h1 h" by (meson prefix_order.trans)
  from load_fresh [OF sd 2] ps 1 show "stored_services (fst module_load) h = Inr UPS_SERVICES"
    by (simp add: stored_services_def ml load_dict_def)
  from load_fresh [OF rd 4] pr 3 show "stored_routes (fst module_load) h = Inr DEMO_ROUTES"
    by (simp add: stored_routes_def ml load_dict_def)
  from load_fresh [OF wd 6] pw 5
  show "stored_weight_categories (fst module_load) h = Inr WEIGHT_CATEGORIES"
    by (simp add: stored_weight_categories_def ml load_weight_dict_def)
qed

lemma run_call_frame:
  assumes "n \<le> length h"
  shows "unchanged_below n h (run_call g h c)"
  using generate_shipping_quotes_h_frame [OF assms] route_lookup_h_frame [OF assms]
    get_fallback_route_data_h_frame [OF assms]
  by (cases c) (simp_all add: run_call_def)

lemma run_calls_frame:
  assumes "n \<le> length h"
  shows "unchanged_below n h (run_calls g h cs)"
  using assms
proof (induction cs arbitrary: h)
  case Nil
  then show ?case by (simp add: run_calls_def)
next
  case (Cons c cs)
  from run_call_frame [OF Cons.prems] have u: "unchanged_below n h (run_call g h c)" .
  from Cons.IH [OF unchanged_length [OF u Cons.prems]] u show ?case
    by (auto simp: run_calls_def intro: unchanged_trans)
qed

lemma unchanged_nth:
  assumes "unchanged_below (length h) h h'" "a < length h"
  shows "h' ! a = h ! a"
proof -
  from assms(1) have "take (length h) h' = h" by (simp add: unchanged_below_def)
  then have "take (length h) h' ! a = h ! a" by simp
  with assms(2) show ?thesis by simp
qed

text \<open>
  Claim C9. No quote-generation operation mutates the reference catalogs. On the store:
  every object that exists before a call of \<^verbatim>\<open>generate_shipping_quotes\<close>, of
  \<^verbatim>\<open>route_lookup\<close> (a reversed match stores into the copy it allocates), of
  \<^verbatim>\<open>_swap_route_direction\<close> or of \<^verbatim>\<open>get_fallback_route_data\<close> (which allocates its dicts)
  is the same object after it, whether the call returns or raises; and after any
  sequence of such calls from module load on, \<^verbatim>\<open>UPS_SERVICES\<close>, \<^verbatim>\<open>DEMO_ROUTES\<close> and
  \<^verbatim>\<open>WEIGHT_CATEGORIES\<close> read back from the store are the catalogs as defined.
\<close>

theorem catalogs_unchanged:
  "(a < length h \<longrightarrow>
       snd (generate_shipping_quotes_h g h oc dc w) ! a = h ! a
     \<and> snd (route_lookup_h g h oc dc) ! a = h ! a
     \<and> snd (swap_route_direction_h h route_ref) ! a = h ! a
     \<and> snd (get_fallback_route_data_h g h oc dc) ! a = h ! a)
   \<and> stored_services (fst module_load) (run_calls (fst module_load) (snd module_load) cs)
       = Inr UPS_SERVICES
   \<and> stored_routes (fst module_load) (run_calls (fst module_load) (snd module_load) cs)
       = Inr DEMO_ROUTES
   \<and> stored_weight_categories (fst module_load)
         (run_calls (fst module_load) (snd module_load) cs)
       = Inr WEIGHT_CATEGORIES"
proof -
  have n: "length h \<le> length h" by simp
  have 1: "snd (generate_shipping_quotes_h g h oc dc w) ! a = h ! a
     \<and> snd (route_lookup_h g h oc dc) ! a = h ! a
     \<and> snd (swap_route_direction_h h route_ref) ! a = h ! a
     \<and> snd (get_fallback_route_data_h g h oc dc) ! a = h ! a" if "a < length h"
    using unchanged_nth [OF generate_shipping_quotes_h_frame [OF n] that]
      unchanged_nth [OF route_lookup_h_frame [OF n] that]
      unchanged_nth [OF swap_route_direction_h_frame [OF n] that]
      unchanged_nth [OF get_fallback_route_data_h_frame [OF n] that]
    by blast
  have "unchanged_below (length (snd module_load)) (snd module_load)
          (run_calls (fst module_load) (snd module_load) cs)"
    by (rule run_calls_frame) simp
  then have "prefix (snd module_load) (run_calls (fst module_load) (snd module_load) cs)"
    by (simp add: unchanged_prefix)
  from module_load_stored [OF this] 1 show ?thesis by blast
qed

lemma module_load_nonempty: "0 < length (snd module_load)"
  by (simp add: module_load_def alloc_def split: prod.splits)

theorem catalogs_unchanged_witness:
  "0 < length (snd module_load)
   \<and> snd (generate_shipping_quotes_h (fst module_load) (snd module_load)
            ''Los Angeles'' ''New York'' 5) ! 0 = snd module_load ! 0
   \<and> snd (route_lookup_h (fst module_load) (snd module_load) ''Los Angeles'' ''New York'') ! 0
       = snd module_load ! 0
   \<and> snd (swap_route_direction_h (snd module_load) 9) ! 0 = snd module_load ! 0
   \<and> snd (get_fallback_route_data_h (fst module_load) (snd module_load)
            ''Los Angeles'' ''New York'') ! 0 = snd module_load ! 0"
proof -
  note t = catalogs_unchanged [of 0 "snd module_load" "fst module_load" "''Los Angeles''"
      "''New York''" 5 9 "[]"]
  from t have "0 < length (snd module_load) \<longrightarrow>
       snd (generate_shipping_quotes_h (fst module_load) (snd module_load)
            ''Los Angeles'' ''New York'' 5) ! 0 = snd module_load ! 0
     \<and> snd (route_lookup_h (fst module_load) (snd module_load) ''Los Angeles'' ''New York'') ! 0
         = snd module_load ! 0
     \<and> snd (swap_route_direction_h (snd module_load) 9) ! 0 = snd module_load ! 0
     \<and> snd (get_fallback_route_data_h (fst module_load) (snd module_load)
            ''Los Angeles'' ''New York'') ! 0 = snd module_load ! 0"
    by (rule conjunct1)
  from this [THEN mp, OF module_load_nonempty] module_load_nonempty show ?thesis
    by (intro conjI) simp_all
qed

text \<open>
  The stores of the model are not idle. On a store with one route, New York to Los
  Angeles, the reversed lookup allocates a copy of the route dict at the next free address
  and rebinds the two locations in it; the route dict of the catalog, at address 2, stays.
\<close>

lemma reversed_lookup_writes_a_copy:
  "route_lookup_h \<lparr>g_UPS_SERVICES = 4, g_DEMO_ROUTES = 3, g_WEIGHT_CATEGORIES = 5\<rparr>
     [CLocation \<lparr>city = ''New York'', state = ''NY'', zip_code = ''10001''\<rparr>,
      CLocation \<lparr>city = ''Los Angeles'', state = ''CA'', zip_code = ''90210''\<rparr>,
      CRoute (with_locations rd 0 1), CDict [(''NYC_LA'', 2)], CDict [], CWeightDict []]
     ''Los Angeles'' ''New York''
   = (Inr (Some ''NYC_LA'', Some 6),
      [CLocation \<lparr>city = ''New York'', state = ''NY'', zip_code = ''10001''\<rparr>,
       CLocation \<lparr>city = ''Los Angeles'', state = ''CA'', zip_code = ''90210''\<rparr>,
       CRoute (with_locations rd 0 1), CDict [(''NYC_LA'', 2)], CDict [], CWeightDict [],
       CRoute (with_locations rd 1 0)])"
  by (simp add: route_lookup_h_def find_route_by_cities_h_def load_dict_def load_def
      deref_route_def load_route_def load_location_def with_locations_def lower_def
      lower_char_def ascii_uppercase_def ascii_lowercase_def swap_route_direction_h_def
      alloc_def store_def)


end
